theory Spec2Isabelle
  imports Main
begin

section \<open>The notebook documents\<close>

text \<open>
  The repository holds a Jupyter notebook in two files,
  \<^verbatim>\<open>src/tutorials/operators/01_getting_started_with_operators.ipynb\<close> and
  \<^verbatim>\<open>src/unnamed/part_000\<close>. A notebook is a sequence of cells; a cell is either
  markdown prose or Python code, and its \<^verbatim>\<open>source\<close> field is the text of the cell.
  The text is kept here line by line (a line does not hold its terminating newline),
  as bytes: a character outside ASCII is the bytes of its UTF-8 encoding.

  The \<^verbatim>\<open>outputs\<close>, \<^verbatim>\<open>execution_count\<close> and \<^verbatim>\<open>metadata\<close> fields of a cell record one
  past run of the notebook and are not part of the model.
\<close>

datatype cell = Markdown "string list" | Code "string list"

fun is_code :: "cell \<Rightarrow> bool" where
  "is_code (Code _) = True"
| "is_code (Markdown _) = False"

fun source :: "cell \<Rightarrow> string list" where
  "source (Code ls) = ls"
| "source (Markdown ls) = ls"

text \<open>
  Characters that a string literal cannot hold: the backslash, a single quote at the end
  of the literal, and the three characters outside ASCII that the notebooks use (the
  left and right double quotation marks U+201C and U+201D, and the Greek letter theta
  U+03B8).
\<close>

definition sq :: string where
  "sq = [CHR 0x27]"

definition bs :: string where
  "bs = [CHR 0x5C]"

definition ldquo :: string where
  "ldquo = [CHR 0xE2, CHR 0x80, CHR 0x9C]"

definition rdquo :: string where
  "rdquo = [CHR 0xE2, CHR 0x80, CHR 0x9D]"

definition theta :: string where
  "theta = [CHR 0xCE, CHR 0xB8]"

subsection \<open>The cells of \<^verbatim>\<open>src/tutorials/operators/01_getting_started_with_operators.ipynb\<close>\<close>

definition tutorial_md_0 :: "string list" where
  \<open>tutorial_md_0 =
   [''# Getting started with operators'',
    '''',
    ''Qiskit provides sophisticated functionality with operators: [The "Operator '' @
    ''Flow" layer in '' @
    ''Aqua](https://qiskit.org/documentation/apidoc/qiskit.aqua.operators.html). '' @
    ''In this tutorial notebook we will get familiar with the main building '' @
    ''blocks of the operator flow layer:'',
    '''',
    ''1. State functions'',
    ''2. Operators and evolutions'',
    ''3. Measurements and expectations'',
    '''',
    ''This tutorial assumes basic familiarity with qubits, quantum superposition '' @
    ''and quantum circuits.'',
    '''',
    ''There are a few important underlying mathematical concepts:'',
    '''',
    ''* An n-qubit State function is a complex function over n binary variables, '' @
    ''which we will often refer to as n-qubit binary strings. For example, the '' @
    ''traditional quantum '' @ ldquo @ ''zero state'' @ rdquo @
    '' is a 1-qubit state function, with a definition of f(0) = 1 and f(1) = 0.'',
    ''* An n-qubit Operator is a linear function taking n-qubit state functions '' @
    ''to n-qubit state functions. For example, the Pauli X Operator is defined by '' @
    ''f(Zero) = One and f(One) = Zero. Equivalently, an Operator can be defined '' @
    ''as a complex function over two n-qubit binary strings, and it is sometimes '' @
    ''convenient to picture things this way. By this definition, our Pauli X can '' @
    ''be defined by its typical matrix elements, f(0, 0) = 0, f(1, 0) = 1, f(0, '' @
    ''1) = 1, f(1, 1) = 0.'',
    ''* An n-qubit Measurement is a functional taking n-qubit State functions to '' @
    ''complex values. For example, a Pauli Z Measurement can be defined by '' @
    ''f(Zero) = 0 and f(One) = 1.'',
    '''',
    ''The definitions of these concepts mostly follows the ones in the first two '' @
    ''chapters of the book ["The Theory of Quantum Information" by John '' @
    ''Watrous](https://cs.uwaterloo.ca/~watrous/TQI/), but don\'t worry if you '' @
    ''don\'t get them at the first glance: This tutorial is all about getting '' @
    ''intuition behind them and the structure of the operator flow layer.'']\<close>

definition tutorial_md_1 :: "string list" where
  \<open>tutorial_md_1 =
   [''First, let us import the necessary components:'']\<close>

definition tutorial_code_2 :: "string list" where
  \<open>tutorial_code_2 =
   [''from qiskit import BasicAer, QuantumCircuit'',
    ''from qiskit.aqua.operators import *'',
    ''from qiskit.circuit import Parameter'',
    ''from qiskit.quantum_info import Pauli'',
    ''import numpy as np'']\<close>

definition tutorial_md_3 :: "string list" where
  \<open>tutorial_md_3 =
   [''## State functions'',
    '''',
    ''Let us start with a single qubit. As we know, a pure state of a qubit is, '' @
    ''in general, described as a superposition of basis states $'' @ bs @ ''vert '' @ bs @
    ''psi '' @ bs @ ''rangle = '' @ bs @ ''alpha '' @ bs @ ''vert 0'' @ bs @ ''rangle + '' @
    bs @ ''beta '' @ bs @ ''vert 1 '' @ bs @ ''rangle$ with complex coefficients $'' @ bs @
    ''alpha$ and $'' @ bs @
    ''beta$. We can think of this superposition as some mathematical object which '' @
    ''puts into correspondence the ket $'' @ bs @ ''vert 0'' @ bs @ ''rangle$ with $'' @
    bs @ ''alpha$ and $'' @ bs @ ''vert 1'' @ bs @ ''rangle$ with $'' @ bs @
    ''beta$. This is exactly what the state functions in Aqua are. For example '' @
    ''the well known minus state $'' @ bs @ ''vert '' @ bs @ ''psi_{-}'' @ bs @
    ''rangle='' @ bs @ ''frac{1}{'' @ bs @ ''sqrt{2}}'' @ bs @ ''vert 0 '' @ bs @
    ''rangle - '' @ bs @ ''frac{1}{'' @ bs @ ''sqrt{2}}'' @ bs @ ''vert 1'' @ bs @
    ''rangle$ can be thought of as a function mapping the basis ket $'' @ bs @ ''vert 0'' @
    bs @ ''rangle$ to $'' @ bs @ ''frac{1}{'' @ bs @ ''sqrt{2}}$ and the basis ket $'' @
    bs @ ''vert 1'' @ bs @ ''rangle$ to $-'' @ bs @ ''frac{1}{'' @ bs @
    ''sqrt{2}}$. Basis states themselves are particular cases of state functions, '' @
    ''e.g. the basis state $'' @ bs @ ''vert 0'' @ bs @
    ''rangle$ can be thought of as a function mapping the ket $'' @ bs @ ''vert 0'' @ bs @
    ''rangle$ to the number $1$ and the ket $'' @ bs @ ''vert 1'' @ bs @
    ''rangle$ to the number $0$.'',
    '''',
    ''In Aqua, the class `StateFn` can be used to create state functions. Let us '' @
    ''create the 1-qubit state function corresponding to the state $'' @ bs @ ''vert '' @
    bs @ ''psi_{-}'' @ bs @ ''rangle$'']\<close>

definition tutorial_code_4 :: "string list" where
  \<open>tutorial_code_4 =
   [''amplitudes = [1, -1]'',
    ''normalization_coefficient = 1 / np.sqrt(2)'',
    ''psi_minus = StateFn(amplitudes, coeff=normalization_coefficient)'']\<close>

definition tutorial_md_5 :: "string list" where
  \<open>tutorial_md_5 =
   [''To access the mapping represented by this state function we can use the '' @
    ''function `.eval()`'']\<close>

definition tutorial_code_6 :: "string list" where
  \<open>tutorial_code_6 =
   [''print(f"The ket |0> is mapped to {psi_minus.eval(\'0\')}")'',
    ''print(f"The ket |1> is mapped to {psi_minus.eval(\'1\')}")'']\<close>

definition tutorial_md_7 :: "string list" where
  \<open>tutorial_md_7 =
   [''As you can see we have explicitly specified the normalization coefficient '' @
    ''to keep the state normalized. Essentially the Aqua state functions can be '' @
    ''thought of and treated as ket vectors, but keep in mind that they are a bit '' @
    ''more general mathematical objects and do not impose normalization '' @
    ''constraint. At the end of the day, when you create quantum circuits out of '' @
    ''state functions and sample them the normalization will be taken care of '' @
    ''internally, so you actually don\'t need to explicitly specify the '' @
    ''coefficient every time you create a state function (the default value is '' @
    ''`coeff=1`).'']\<close>

definition tutorial_md_8 :: "string list" where
  \<open>tutorial_md_8 =
   [''If we look at the type of the object `psi_minus`'']\<close>

definition tutorial_code_9 :: "string list" where
  \<open>tutorial_code_9 =
   [''type(psi_minus)'']\<close>

definition tutorial_md_10 :: "string list" where
  \<open>tutorial_md_10 =
   [''we can see that it is `VectorStateFn`. This is not much of a surprise, '' @
    ''since we built the state function based on a vector of amplitudes. In how '' @
    ''many ways can we create a state function? One way is obviously with a '' @
    ''vector of complex amplitudes as done above. Another way is by specifying '' @
    ''the mapping explicitly with a python dictionary'']\<close>

definition tutorial_code_11 :: "string list" where
  \<open>tutorial_code_11 =
   [''mapping = {\'0\': 1, \'1\': -1}'',
    ''psi_minus_dict = StateFn(mapping, coeff=normalization_coefficient)'',
    ''type(psi_minus_dict)'']\<close>

definition tutorial_md_12 :: "string list" where
  \<open>tutorial_md_12 =
   [''`DictStateFn` objects provide an additional convenience where you can omit '' @
    ''the zero amplitudes, e.g. the state $'' @ bs @ ''vert 1'' @ bs @
    ''rangle$ can be initialized with `{\'1\': 1}` instead of `{\'0\': 0, \'1\': 1}`.'',
    '''',
    ''Yet another way to build a state function object is using a quantum circuit'']\<close>

definition tutorial_code_13 :: "string list" where
  \<open>tutorial_code_13 =
   [''qc = QuantumCircuit(1)'',
    ''qc.h(0)'',
    ''qc.z(0)'',
    ''psi_minus_qc = StateFn(qc)'',
    ''type(psi_minus_qc)'']\<close>

definition tutorial_md_14 :: "string list" where
  \<open>tutorial_md_14 =
   [''An object used to build a state function is called its _primitive_. The '' @
    ''class `StateFn` is a convenient way to create state function objects with '' @
    ''various primitives, however the underlying classes `VectorStateFn`, '' @
    ''`DictStateFn`, `CircuitStateFn` etc. can be used directly as well, e.g. '' @
    ''`DictStateFn({\'0\': 1, \'1\': -1})`. The full list of allowed primitives can '' @
    ''be studied in the documentation. One important type of primitve is an Aqua '' @
    ''operator, which we will cover briefly after we introduce operators and '' @
    ''measurements.'']\<close>

definition tutorial_md_15 :: "string list" where
  \<open>tutorial_md_15 =
   [''To make the usage of state functions easier, Aqua provides the following '' @
    ''frequently used 1-qubit state functions as pre-built objects'',
    '''',
    ''* $'' @ bs @ ''vert 0 '' @ bs @ ''rangle '' @ bs @ ''rightarrow$ `Zero`'',
    ''* $'' @ bs @ ''vert 1 '' @ bs @ ''rangle '' @ bs @ ''rightarrow$ `One`'',
    ''* $'' @ bs @ ''frac{1}{'' @ bs @ ''sqrt{2}} ('' @ bs @ ''vert 0 '' @ bs @
    ''rangle + '' @ bs @ ''vert 1 '' @ bs @ ''rangle) '' @ bs @ ''rightarrow$ `Plus`'',
    ''* $'' @ bs @ ''frac{1}{'' @ bs @ ''sqrt{2}} ('' @ bs @ ''vert 0 '' @ bs @
    ''rangle - '' @ bs @ ''vert 1 '' @ bs @ ''rangle) '' @ bs @ ''rightarrow$ `Minus`'',
    '''',
    ''E.g. if you need to use the minus state in your code, you can use `Minus`:'']\<close>

definition tutorial_code_16 :: "string list" where
  \<open>tutorial_code_16 =
   [''print(f"\'Minus\' maps |0> to {Minus.eval(\'0\')}")'',
    ''print(f"\'Minus\' maps |1> to {Minus.eval(\'1\')}")'']\<close>

definition tutorial_md_17 :: "string list" where
  \<open>tutorial_md_17 =
   [''Multi-qubit state functions can be created in a manner identical to '' @
    ''one-qubit state functions. As an example let us create a state function '' @
    ''object for the 2-qubit Bell state $'' @ bs @ ''vert '' @ bs @ ''Phi^{+} '' @ bs @
    ''rangle = '' @ bs @ ''frac{1}{'' @ bs @ ''sqrt{2}}('' @ bs @ ''vert 00 '' @ bs @
    ''rangle + '' @ bs @ ''vert 11 '' @ bs @ ''rangle)$'']\<close>

definition tutorial_code_18 :: "string list" where
  \<open>tutorial_code_18 =
   [''primitive = {\'00\': 1, \'11\': 1}'',
    ''coeff = 1 / np.sqrt(2)'',
    ''bell = StateFn(primitive, coeff)'',
    '''',
    ''for basis in [\'00\', \'01\', \'10\', \'11\']:'',
    ''    print(f"\'bell\' maps |{basis}> to {bell.eval(basis)}")'']\<close>

definition tutorial_md_19 :: "string list" where
  \<open>tutorial_md_19 =
   [''As you know there are a lot of quantum states that can be described as '' @
    ''tensor products of one-qubit states. The Bell state we have created above '' @
    ''is not a such state, however e.g. the 2-qubit uniform superposition state $'' @ bs @
    ''frac{1}{2}('' @ bs @ ''vert 00 '' @ bs @ ''rangle + '' @ bs @ ''vert 01 '' @ bs @
    ''rangle + '' @ bs @ ''vert 10 '' @ bs @ ''rangle + '' @ bs @ ''vert 11 '' @ bs @
    ''rangle) = '' @ bs @ ''frac{1}{'' @ bs @ ''sqrt{2}}('' @ bs @ ''vert 0 '' @ bs @
    ''rangle + '' @ bs @ ''vert 1 '' @ bs @ ''rangle) '' @ bs @ ''otimes '' @ bs @
    ''frac{1}{'' @ bs @ ''sqrt{2}}('' @ bs @ ''vert 0 '' @ bs @ ''rangle + '' @ bs @
    ''vert 1 '' @ bs @
    ''rangle)$ is. Instead of specifying 2-qubit amplitudes to create a state '' @
    ''function, as we did for the Bell state, we can use the tensoring capability '' @
    ''of state functions to create the uniform superposition state. Tensoring of '' @
    ''state functions can be done with the `.tensor()` function '' @
    ''(`Plus.tensor(Plus)`) or the `^` symbol (`Plus ^ Plus`). Tensoring can be '' @
    ''used also to do tensor powers, i.e. the second operand of tensoring can be '' @
    ''an integer instead of a state function  and this will mean the tensor power '' @
    ''of the first operand. E.g. let us create a uniform superposition state for '' @
    ''five qubits'']\<close>

definition tutorial_code_20 :: "string list" where
  \<open>tutorial_code_20 =
   [''uniform = Plus ^ 5'',
    ''uniform.primitive.draw()'']\<close>

definition tutorial_md_21 :: "string list" where
  \<open>tutorial_md_21 =
   [''We have described the introductory basics of Aqua state functions above. Of '' @
    ''course they support much more sophisticated functionality which is not '' @
    ''covered in this notebook. A few honorable mentions are the functions '' @
    ''`sample()` and `to_matrix()` which we encourage the readers to investigate '' @
    ''on their own.'']\<close>

definition tutorial_md_22 :: "string list" where
  \<open>tutorial_md_22 =
   [''## Operators and Evolutions'',
    '''',
    ''### Operators'',
    ''Now as we can build state functions we can define operations to transform '' @
    ''them. Aqua operators do exactly this. They can be created using a few '' @
    ''different primitives as well. Let us define an operator which takes the $'' @ bs @
    ''vert - '' @ bs @ ''rangle$ state to the basis state $'' @ bs @ ''vert 1'' @ bs @
    ''rangle$. As you know we could accomplish this with a Hadamard gate if we '' @
    ''were building a quantum circuit. Let us use such a circuit as a primitive '' @
    ''to create an operator'']\<close>

definition tutorial_code_23 :: "string list" where
  \<open>tutorial_code_23 =
   [''qc_hadamard = QuantumCircuit(1)'',
    ''qc_hadamard.h(0)'',
    ''op_hadamard = CircuitOp(qc_hadamard)'']\<close>

definition tutorial_md_24 :: "string list" where
  \<open>tutorial_md_24 =
   [''To make the operator `op_hadamard` act on the state `Minus` we need to '' @
    ''chain them together. The official term for this in Aqua is _composition_. '' @
    ''The symbol `@` can be used to compose the operator with the state function, '' @
    ''or the `.compose()` function: they are equivalent'']\<close>

definition tutorial_code_25 :: "string list" where
  \<open>tutorial_code_25 =
   [''(op_hadamard @ Minus).eval().sample()'']\<close>

definition tutorial_code_26 :: "string list" where
  \<open>tutorial_code_26 =
   [''op_hadamard.compose(Minus).eval().sample()'']\<close>

definition tutorial_md_27 :: "string list" where
  \<open>tutorial_md_27 =
   [''If you check the type of the object `(op_hadamard @ Minus)` you will see '' @
    ''that it is `CircuitStateFn`. The pre-built state function `Minus` is based '' @
    ''on a circuit primitive and the composition of `op_hadamard` with it is '' @
    ''straightforward to handle -  the result is a state function with the '' @
    ''concatenated circuit as its primitive. In practice you will often come '' @
    ''across more complicated compositions where the result is not so '' @
    ''straightforward to obtain. In such cases an object of type `ComposedOp` '' @
    ''will be created when you do a composition. The class `ComposedOp` is '' @
    ''designed to represent compositions without doing the underlying '' @
    ''calculations to obtain the actual result of the composition. This is called '' @
    ''lazy representation and it is done to defer heavy numerical calculations to '' @
    ''a later stage where posssibly a quantum device will be used and numerical '' @
    ''simulation not needed. The function `.eval()` can be used to force the '' @
    ''system to actually do the calculations and yield the final result. Lazy '' @
    ''representation of various objects is ubiquitous in Aqua, `ComposedOp` is '' @
    ''just one example of it. We will see some other examples later in this '' @
    ''tutorial. '']\<close>

definition tutorial_md_28 :: "string list" where
  \<open>tutorial_md_28 =
   [''Linear operators are linear maps between finite dimensional vector spaces, '' @
    ''and therefore have a matrix representation. For e.g. the Pauli $X$ operator '' @
    ''has the following matrix representation $X('' @ bs @ ''vert 0 '' @ bs @ ''rangle, '' @
    bs @ ''vert 0 '' @ bs @ ''rangle) = 0$, $X('' @ bs @ ''vert 1 '' @ bs @ ''rangle, '' @
    bs @ ''vert 0 '' @ bs @ ''rangle) = 1$, $X('' @ bs @ ''vert 0 '' @ bs @ ''rangle, '' @
    bs @ ''vert 1 '' @ bs @ ''rangle) = 1$, $X('' @ bs @ ''vert 1 '' @ bs @ ''rangle, '' @
    bs @ ''vert 1 '' @ bs @
    ''rangle) = 0$. We can define a corresponding operator based on the matrix '' @
    ''representation '']\<close>

definition tutorial_code_29 :: "string list" where
  \<open>tutorial_code_29 =
   [''matrix_x = np.array([[0, 1], [1, 0]])'',
    ''op_x = MatrixOp(matrix_x)'']\<close>

definition tutorial_md_30 :: "string list" where
  \<open>tutorial_md_30 =
   [''We can see the action of `op_x` by composing it with a state function as we '' @
    ''did before for `op_hadamard`.'']\<close>

definition tutorial_code_31 :: "string list" where
  \<open>tutorial_code_31 =
   [''(op_x @ Zero).eval().sample()'']\<close>

definition tutorial_code_32 :: "string list" where
  \<open>tutorial_code_32 =
   [''(op_x @ One).eval().sample()'']\<close>

definition tutorial_md_33 :: "string list" where
  \<open>tutorial_md_33 =
   [''Pauli operators are an important class of operators that we routinely '' @
    ''encounter in quantum computing. One particular reason for that is that the '' @
    ''Pauli matrices (and their tensor products) form a matrix basis. Qiskit '' @
    ''Terra provides implementations of Pauli gates, and we can define operators '' @
    ''using Terra\'s `Pauli` module'']\<close>

definition tutorial_code_34 :: "string list" where
  \<open>tutorial_code_34 =
   [''op_x_terra = PauliOp(Pauli(z=[False], x=[True]))'',
    ''print(repr(op_x_terra))'']\<close>

definition tutorial_md_35 :: "string list" where
  \<open>tutorial_md_35 =
   [''In addition to the Pauli operators, there are a handful of other operators '' @
    ''that are commonly used as building blocks for quantum applications. Aqua '' @
    ''has a set of immutable `Operator` instances for this purpose. These are the '' @
    ''Pauli Operators (`X`, `Y`, `Z`, `I`), Clifford Operators (`CX`, `S`, `H`, '' @
    ''`Swap`, `CZ`), and the $T$ Operator (`T`). We can convert between the '' @
    ''different operator representations by using `.to_circuit_op()`, '' @
    ''`.to_matrix_op()`, and `to_pauli_op()` functions. These classes have '' @
    ''additional methods too. Some very helpful ones are `add`, `mul`, `power`. '' @
    ''We encourage the reader to explore these.'']\<close>

definition tutorial_md_36 :: "string list" where
  \<open>tutorial_md_36 =
   [''### Evolutions'',
    ''The idea of evolution is central to quantum mechanics. The most common '' @
    ''evolution that we encounter is the *time* evolution, generated by the '' @
    ''Hamiltonian of the system. Operating on the state function with $e^{-iHt}$, '' @
    ''where $H$ is the Hamiltonian, gives the time evolved form of the state '' @
    ''function. More generally the operator for an evolution generated by $U$ is '' @
    ''$e^{-iU'' @ bs @ ''theta}$, where $'' @ bs @
    ''theta$ is the evolution parameter. Let us now see an example of how we can '' @
    ''create an operator for evolution in Aqua.'',
    ''We start with a simple two qubit Hamiltonian $H = XX + YY + ZZ$. This is a '' @
    ''special case of the Heisenberg Hamiltonian, but for now we will call it the '' @
    ''Heisenberg Hamiltonian.'']\<close>

definition tutorial_code_37 :: "string list" where
  \<open>tutorial_code_37 =
   [''hamiltonian = (X^X) + (Y^Y) + (Z^Z)'',
    ''print(hamiltonian)'']\<close>

definition tutorial_md_38 :: "string list" where
  \<open>tutorial_md_38 =
   [''There is a quite a bit to unpack here. First notice the use of `^`. In '' @
    ''Python `^` is used as the bitwise XOR operator, however in Aqua, it has '' @
    ''been overloaded to represent tensor products, as we have seen earlier for '' @
    ''state functions. Note that you should always use parenthesis to indicate '' @
    ''operator precedence, since built-in precedence of such operators in python '' @
    ''will most likely not be what you are looking for (it is possible to '' @
    ''overload the functionality of an operator, but not the precedence logic, so '' @
    ''we have to stick with the built-in precedences). We also see a new class '' @
    ''`SummedOp`, which is used to do lazy representation of operators formed by '' @
    ''summing other operators. There are other classes to represent operators '' @
    ''formed from other operators like `TensoredOp` (for tensor products), '' @
    ''`ComposedOp` (composition), `ListOp` (list concatenation). We encourage you '' @
    ''to explore these. Now we will see the evolution operator formed from this '' @
    ''Hamiltonian.'']\<close>

definition tutorial_code_39 :: "string list" where
  \<open>tutorial_code_39 =
   [''evolution_param = Parameter('' @ sq @ theta @ ''\')'',
    ''evolution_op = (evolution_param * hamiltonian).exp_i()'',
    ''print(evolution_op)'']\<close>

definition tutorial_md_40 :: "string list" where
  \<open>tutorial_md_40 =
   [''It might seem like we are just pretty printing an evolution operator, but '' @
    ''convince ourselves that it is indeed what is happening under the hood, let '' @
    ''us take a more detailed look at the evolution operator.'']\<close>

definition tutorial_code_41 :: "string list" where
  \<open>tutorial_code_41 =
   [''print(repr(evolution_op))'']\<close>

definition tutorial_md_42 :: "string list" where
  \<open>tutorial_md_42 =
   [''We see a new class `EvolvedOp`. `EvolvedOp` is a placeholder for an '' @
    ''evolution algorithm for later conversion into an Operator that approximates '' @
    ''the exponentiation of the generator. Why a placeholder, and not an '' @
    ''immediate conversion? This has all to do with the lazy execution of '' @
    ''operators. Also notice that though the Hamiltonian is a sum of tensor '' @
    ''products of Pauli operators, we do not see `TensoredOp` in the '' @
    ''representation. This is because tensor products of Pauli operators are so '' @
    ''ubiquitous, that the `PauliOp` class has been designed to handle those as '' @
    ''well, in addition to the single qubit example that we saw earlier. '',
    '''',
    ''When it comes to actually representing evolutions with operators instead of '' @
    ''the lazy representation by `EvolvedOp`, there are  a few methods to '' @
    ''construct the approximations, like `PauliTrotterEvolution`, and '' @
    ''`MatrixEvolution`, to convert any `EvolvedOp` object into an actual '' @
    ''sequence of operators. We will discuss them in greater detail in later '' @
    ''tutorials. But in the meanwhile feel free to check them out.'']\<close>

definition tutorial_md_43 :: "string list" where
  \<open>tutorial_md_43 =
   [''## Measurements and Expectations'',
    '''',
    ''### Measurements'',
    '''',
    ''A Measurement is a functional that maps State functions to complex numbers. '' @
    ''In Aqua, we think of a Measurement as the adjoint of a State function. For '' @
    ''example say we want to measure $'' @ bs @ ''langle 0 '' @ bs @ ''vert 1 '' @ bs @
    ''rangle$. We can think of this as the functional $'' @ bs @ ''vert 0 '' @ bs @
    ''rangle_{meas}()$, that accepts the State function $'' @ bs @ ''vert 1 '' @ bs @
    ''rangle$, and maps it to a complex number, in this case $0$: $'' @ bs @ ''vert 0 '' @
    bs @ ''rangle_{meas}('' @ bs @ ''vert 1 '' @ bs @ ''rangle) = '' @ bs @ ''langle 0 '' @
    bs @ ''vert 1 '' @ bs @ ''rangle = 0$. Essentially, we are identifying $'' @ bs @
    ''vert 0 '' @ bs @ ''rangle_{meas}()$ with $'' @ bs @ ''langle 0 '' @ bs @
    ''vert$, the adjoint of $'' @ bs @ ''vert 0 '' @ bs @ ''rangle$. Thus $'' @ bs @
    ''langle 0 '' @ bs @
    ''vert$ is interpreted as a Measurement in the language of Aqua.'']\<close>

definition tutorial_code_44 :: "string list" where
  \<open>tutorial_code_44 =
   [''print(f"<0|: {Zero.adjoint()}")'',
    ''print(f"<0|1>: {Zero.adjoint().eval(One)}")'',
    ''print(f"<0|+>: {Zero.adjoint().eval(Plus)}")'',
    ''print(f"<1|Z|+>: {(One.adjoint() @ Z @ Plus).eval()}")'']\<close>

definition tutorial_md_45 :: "string list" where
  \<open>tutorial_md_45 =
   [''In the first section of this notebook we saw a bunch of methods to create '' @
    ''state functions and think of them as ket state vectors at the back of our '' @
    ''mind. What if we work with a system which does not have a state described '' @
    ''in terms of ket state vectors? Such are the systems which have state '' @
    ''representation in terms of density matrix (or density operator). Aqua has a '' @
    ''class `OperatorStateFn` which allows the creation of state functions based '' @
    ''on operators. Besides the fact that this class can be used to create state '' @
    ''functions representing density operators, they have one important use case '' @
    ''- measurements of observables. To measure the expectation value of some '' @
    ''physical quantity (e.g. the hamiltonian) you need to build necessary '' @
    ''measurement logic, which can be done just by creating an `OperatorStateFn` '' @
    ''object by using the operator of the observable as its primitive, and take '' @
    ''the adjoint of the result (i.e. make it a measurement as described above). '' @
    ''We will see the usage of `OperatorStateFn` in this manner at the complete '' @
    ''end-to-end example presented at the end of this notebook.'']\<close>

definition tutorial_md_46 :: "string list" where
  \<open>tutorial_md_46 =
   [''### Expectations'',
    '''',
    ''`ExpectationBase` and its subclasses enable the computation of expectation '' @
    ''values of Observables. These are converters that replace `OperatorStateFn` '' @
    ''measurements with equivalent measurements (or approximations thereof) that '' @
    ''can be actually computed on a quantum or classical hardware. '']\<close>

definition tutorial_code_47 :: "string list" where
  \<open>tutorial_code_47 =
   [''hamiltonian_meas = StateFn(hamiltonian).adjoint()'',
    ''print(PauliExpectation().convert(hamiltonian_meas))'']\<close>

definition tutorial_md_48 :: "string list" where
  \<open>tutorial_md_48 =
   [''In the above example `PauliExpectation` is a subclass of `ExpectationBase` '' @
    ''that converts Pauli-basis Observables to a diagonal $'' @ bs @ ''{Z, I'' @ bs @
    ''}^{'' @ bs @
    ''otimes n}$ basis (computational basis) by appending circuit post-rotations '' @
    ''to the measured State function. In the Heisenberg Hamiltonian only $ZZ$ is '' @
    ''diagonal. To measure $X$ ($Y$) in the computational basis, we have to '' @
    ''rotate the measurement by $H$ ($S^'' @ bs @
    ''dagger H$). This is exactly what the `PauliExpectation` class did. Let us '' @
    ''look at another example to see another important feature of the '' @
    ''`PauliExpectation` class.'']\<close>

definition tutorial_code_49 :: "string list" where
  \<open>tutorial_code_49 =
   [''hamiltonian2 = (I^X) + (X^I)'',
    ''hamiltonian2_meas = StateFn(hamiltonian2).adjoint()'',
    ''print(PauliExpectation().convert(hamiltonian2_meas))'']\<close>

definition tutorial_md_50 :: "string list" where
  \<open>tutorial_md_50 =
   [''In the above example, the two Pauli strings $IX$, and $XI$ commute, and can '' @
    ''therefore be measured simultaneously. This reduces the number of circuits '' @
    ''required to measure the Hamiltonian. The `PauliExpectation` class by '' @
    ''default groups commuting Pauli strings into an `AbelianSummedOp` to '' @
    ''facilitate the simultaneous measurement. This feature can be turned off by '' @
    ''setting `group_paulis` to `False`, when instantiating a `PauliExpectation` '' @
    ''class. The other `ExpectationBase` subclasses are  `AerPauliExpectation`, '' @
    ''`MatrixExpectation`, and `CVaRExpectation`. There is also a '' @
    ''`ExpectationFactory` for conveniently selecting an `ExpectationBase` '' @
    ''subclass. We encourage you to check them out.'']\<close>

definition tutorial_md_51 :: "string list" where
  \<open>tutorial_md_51 =
   [''## Example'',
    '''',
    ''Now that we have seen the building blocks of Aqua\'s Operator flow, let us '' @
    ''see a complete example to get a feel of what we can do with it. We will '' @
    ''attempt a Trotter-Suzuki expansion of the Heisenberg Hamiltonian, and '' @
    ''calculate the associated energies.'']\<close>

definition tutorial_code_52 :: "string list" where
  \<open>tutorial_code_52 =
   [''# Heisenberg Hamiltonian'',
    ''hamiltonian = (X^X) + (Y^Y) + (Z^Z)'',
    '''',
    ''# Initial State -- Bell state Phi+'',
    ''bell = CX @ (Plus^Zero)'',
    '''',
    ''# Time evolution operator'',
    ''evolution_param = Parameter("'' @ theta @ ''")'',
    ''evolution_op = (evolution_param * hamiltonian).exp_i()'',
    '''',
    ''# Measurement of the Hamiltonian with the time evolved state'',
    ''evo_and_meas = StateFn(hamiltonian).adjoint() @ evolution_op @ bell'',
    '''',
    ''# Trotterization'',
    ''trotterized_op = '' @
    ''PauliTrotterEvolution(trotter_mode=Suzuki()).convert(evo_and_meas)'',
    '''',
    ''# Diagonalize the measurement'',
    ''diagonalized_meas_op = PauliExpectation().convert(trotterized_op)'',
    '''',
    ''# Measure energies by Trotterization an sampling'',
    ''time_array = list(range(10))'',
    ''expectations = diagonalized_meas_op.bind_parameters({evolution_param: '' @
    ''time_array})'',
    ''sampler = CircuitSampler(backend=BasicAer.get_backend("qasm_simulator"))'',
    ''sampled_expectations = sampler.convert(expectations)'',
    ''sampled_energies = sampled_expectations.eval()'',
    ''print(f"Sampled energies after Trotterization:'' @ bs @
    ''n {np.real(sampled_energies)}")'']\<close>

definition tutorial_code_53 :: "string list" where
  \<open>tutorial_code_53 =
   [''import qiskit.tools.jupyter'',
    ''%qiskit_version_table'',
    ''%qiskit_copyright'']\<close>
definition tutorial_nb :: "cell list" where
  "tutorial_nb =
   [Markdown tutorial_md_0,
    Markdown tutorial_md_1,
    Code tutorial_code_2,
    Markdown tutorial_md_3,
    Code tutorial_code_4,
    Markdown tutorial_md_5,
    Code tutorial_code_6,
    Markdown tutorial_md_7,
    Markdown tutorial_md_8,
    Code tutorial_code_9,
    Markdown tutorial_md_10,
    Code tutorial_code_11,
    Markdown tutorial_md_12,
    Code tutorial_code_13,
    Markdown tutorial_md_14,
    Markdown tutorial_md_15,
    Code tutorial_code_16,
    Markdown tutorial_md_17,
    Code tutorial_code_18,
    Markdown tutorial_md_19,
    Code tutorial_code_20,
    Markdown tutorial_md_21,
    Markdown tutorial_md_22,
    Code tutorial_code_23,
    Markdown tutorial_md_24,
    Code tutorial_code_25,
    Code tutorial_code_26,
    Markdown tutorial_md_27,
    Markdown tutorial_md_28,
    Code tutorial_code_29,
    Markdown tutorial_md_30,
    Code tutorial_code_31,
    Code tutorial_code_32,
    Markdown tutorial_md_33,
    Code tutorial_code_34,
    Markdown tutorial_md_35,
    Markdown tutorial_md_36,
    Code tutorial_code_37,
    Markdown tutorial_md_38,
    Code tutorial_code_39,
    Markdown tutorial_md_40,
    Code tutorial_code_41,
    Markdown tutorial_md_42,
    Markdown tutorial_md_43,
    Code tutorial_code_44,
    Markdown tutorial_md_45,
    Markdown tutorial_md_46,
    Code tutorial_code_47,
    Markdown tutorial_md_48,
    Code tutorial_code_49,
    Markdown tutorial_md_50,
    Markdown tutorial_md_51,
    Code tutorial_code_52,
    Code tutorial_code_53]"

subsection \<open>The cells of \<^verbatim>\<open>src/unnamed/part_000\<close>\<close>

definition part000_md_0 :: "string list" where
  \<open>part000_md_0 =
   [''# Getting started with operators'',
    '''',
    ''Qiskit provides sophisticated functionality with operators: [The "Operator '' @
    ''Flow" layer in '' @
    ''Aqua](https://qiskit.org/documentation/apidoc/qiskit.aqua.operators.html). '' @
    ''In this tutorial notebook we will get familiar with the main building '' @
    ''blocks of the operator flow layer:'',
    '''',
    ''1. State functions'',
    ''2. Operators and evolutions'',
    ''3. Measurements and expectations'',
    '''',
    ''This tutorial assumes basic familiarty with qubits, quantum superposition '' @
    ''and quantum circuits.'',
    '''',
    ''There are a few important underlying mathematical concepts:'',
    '''',
    ''* An n-qubit State function is a complex function over n binary variables, '' @
    ''which we will often refer to as n-qubit binary strings. For example, the '' @
    ''traditional quantum '' @ ldquo @ ''zero state'' @ rdquo @
    '' is a 1-qubit state function, with a definition of f(0) = 1 and f(1) = 0.'',
    ''* An n-qubit Operator is a linear function taking n-qubit state functions '' @
    ''to n-qubit state functions. For example, the Pauli X Operator is defined by '' @
    ''f(Zero) = One and f(One) = Zero. Equivalently, an Operator can be defined '' @
    ''as a complex function over two n-qubit binary strings, and it is sometimes '' @
    ''convenient to picture things this way. By this definition, our Pauli X can '' @
    ''be defined by its typical matrix elements, f(0, 0) = 0, f(1, 0) = 1, f(0, '' @
    ''1) = 1, f(1, 1) = 0.'',
    ''* An n-qubit Measurement is a functional taking n-qubit State functions to '' @
    ''complex values. For example, a Pauli Z Measurement can be defined by '' @
    ''f(Zero) = 0 and f(One) = 1.'',
    '''',
    ''The definitions of these concepts mostly follows the ones in the first two '' @
    ''chapters of the book ["The Theory of Quantum Information" by John '' @
    ''Watrous](https://cs.uwaterloo.ca/~watrous/TQI/), but don\'t worry if you '' @
    ''don\'t get them at the first glance: This tutorial is all about getting '' @
    ''intuition behind them and the structure of the operator flow layer.'']\<close>

definition part000_md_1 :: "string list" where
  \<open>part000_md_1 =
   [''First, let us import the necessary components:'']\<close>

definition part000_code_2 :: "string list" where
  \<open>part000_code_2 =
   [''from qiskit.aqua.operators import *'',
    ''from qiskit import QuantumCircuit'',
    ''from qiskit.circuit import Parameter'',
    ''import numpy as np'']\<close>

definition part000_md_3 :: "string list" where
  \<open>part000_md_3 =
   [''## State functions'',
    '''',
    ''Let us start with a single qubit. As we know, a pure state of a qubit is, '' @
    ''in general, described as a superposition of basis states $'' @ bs @ ''vert '' @ bs @
    ''psi '' @ bs @ ''rangle = '' @ bs @ ''alpha '' @ bs @ ''vert 0'' @ bs @ ''rangle + '' @
    bs @ ''beta '' @ bs @ ''vert 1 '' @ bs @ ''rangle$ with complex coefficients $'' @ bs @
    ''alpha$ and $'' @ bs @
    ''beta$. We can think of this superposition as some mathematical object which '' @
    ''puts into correspondence the ket $'' @ bs @ ''vert 0'' @ bs @ ''rangle$ with $'' @
    bs @ ''alpha$ and $'' @ bs @ ''vert 1'' @ bs @ ''rangle$ with $'' @ bs @
    ''beta$. This is exactly what the state functions in Aqua are. For example '' @
    ''the well known minus state $'' @ bs @ ''vert '' @ bs @ ''psi_{-}'' @ bs @
    ''rangle='' @ bs @ ''frac{1}{'' @ bs @ ''sqrt{2}}'' @ bs @ ''vert 0 '' @ bs @
    ''rangle - '' @ bs @ ''frac{1}{'' @ bs @ ''sqrt{2}}'' @ bs @ ''vert 1'' @ bs @
    ''rangle$ can be thought of as a function mapping the basis ket $'' @ bs @ ''vert 0'' @
    bs @ ''rangle$ to $'' @ bs @ ''frac{1}{'' @ bs @ ''sqrt{2}}$ and the basis ket $'' @
    bs @ ''vert 1'' @ bs @ ''rangle$ to $-'' @ bs @ ''frac{1}{'' @ bs @
    ''sqrt{2}}$. Basis states themselves are particular cases of state sunctions, '' @
    ''e.g. the basis state $'' @ bs @ ''vert 0'' @ bs @
    ''rangle$ can be thought of as a function mapping the ket $'' @ bs @ ''vert 0'' @ bs @
    ''rangle$ to the number $1$ and the ket $'' @ bs @ ''vert 1'' @ bs @
    ''rangle$ to the number $0$.'',
    '''',
    ''In Aqua, the class `StateFn` can be used to create state functions. Let us '' @
    ''create the 1-qubit state function corresponding to the state $'' @ bs @ ''vert '' @
    bs @ ''psi_{-}'' @ bs @ ''rangle$'']\<close>

definition part000_code_4 :: "string list" where
  \<open>part000_code_4 =
   [''amplitudes = [1, -1]'',
    ''normalization_coefficient = 1 / np.sqrt(2)'',
    ''psi_minus = StateFn(amplitudes, coeff=normalization_coefficient)'']\<close>

definition part000_md_5 :: "string list" where
  \<open>part000_md_5 =
   [''To access the mapping represented by this state function we can use the '' @
    ''function `.eval()`'']\<close>

definition part000_code_6 :: "string list" where
  \<open>part000_code_6 =
   [''print(f"The ket |0> is mapped to {psi_minus.eval(\'0\')}")'',
    ''print(f"The ket |1> is mapped to {psi_minus.eval(\'1\')}")'']\<close>

definition part000_md_7 :: "string list" where
  \<open>part000_md_7 =
   [''As you can see we have explicitly specified the normalization coefficient '' @
    ''to keep the state normalized. Essentially the Aqua state functions can be '' @
    ''thought of and treated as ket vectors, but keep in mind that they are a bit '' @
    ''more general mathematical objects and do not impose normalization '' @
    ''constraint. At the end of the day, when you create quantum circuits out of '' @
    ''state functions and sample them the normalization will be taken care of '' @
    ''internally, so you actually don\'t need to explicitly specify the '' @
    ''coefficient every time you create a state function (the default value is '' @
    ''`coeff=1`).'']\<close>

definition part000_md_8 :: "string list" where
  \<open>part000_md_8 =
   [''If we look at the type of the object `psi_minus`'']\<close>

definition part000_code_9 :: "string list" where
  \<open>part000_code_9 =
   [''type(psi_minus)'']\<close>

definition part000_md_10 :: "string list" where
  \<open>part000_md_10 =
   [''we can see that it is `VectorStateFn`. This is not much of a surprise, '' @
    ''since we built the state function based on a vector of amplitudes. In how '' @
    ''many ways can we create a state function? One way is obviously with a '' @
    ''vector of complex amplitudes as done above. Another way is by specifying '' @
    ''the mapping explicitly with a python dictionary'']\<close>

definition part000_code_11 :: "string list" where
  \<open>part000_code_11 =
   [''mapping = {\'0\': 1, \'1\': -1}'',
    ''psi_minus_dict = StateFn(mapping, coeff=normalization_coefficient)'',
    ''type(psi_minus_dict)'']\<close>

definition part000_md_12 :: "string list" where
  \<open>part000_md_12 =
   [''`DictStateFn` objects provide an additional convenience where you can omit '' @
    ''the zero amplitudes, e.g. the state $'' @ bs @ ''vert 1'' @ bs @
    ''rangle$ can be initialized with `{\'1\': 1}` instead of `{\'0\': 0, \'1\': 1}`.'',
    '''',
    ''Yet another way to build a state function object is using a quantum circuit'']\<close>

definition part000_code_13 :: "string list" where
  \<open>part000_code_13 =
   [''qc = QuantumCircuit(1)'',
    ''qc.h(0)'',
    ''qc.z(0)'',
    ''psi_minus_qc = StateFn(qc)'',
    ''type(psi_minus_qc)'']\<close>

definition part000_md_14 :: "string list" where
  \<open>part000_md_14 =
   [''An object used to build a state function is called its _primitive_. The '' @
    ''class `StateFn` is a convenient way to create state function objects with '' @
    ''various primitives, however the underlying classes `VectorStateFn`, '' @
    ''`DictStateFn`, `CircuitStateFn` etc. can be used directly as well, e.g. '' @
    ''`DictStateFn({\'0\': 1, \'1\': -1})`. The full list of allowed primitives can '' @
    ''be studied in the documentation. One important type of primitve is an Aqua '' @
    ''operator, which we will cover briefly after we introduce operators and '' @
    ''measurements.'']\<close>

definition part000_md_15 :: "string list" where
  \<open>part000_md_15 =
   [''To make the usage of state functions easier, Aqua provides the following '' @
    ''frequently used state functions as pre-built objects'',
    '''',
    ''* $'' @ bs @ ''vert 0 '' @ bs @ ''rangle '' @ bs @ ''rightarrow$ `Zero`'',
    ''* $'' @ bs @ ''vert 1 '' @ bs @ ''rangle '' @ bs @ ''rightarrow$ `One`'',
    ''* $'' @ bs @ ''frac{1}{'' @ bs @ ''sqrt{2}} ('' @ bs @ ''vert 0 '' @ bs @
    ''rangle + '' @ bs @ ''vert 1 '' @ bs @ ''rangle) '' @ bs @ ''rightarrow$ `Plus`'',
    ''* $'' @ bs @ ''frac{1}{'' @ bs @ ''sqrt{2}} ('' @ bs @ ''vert 0 '' @ bs @
    ''rangle - '' @ bs @ ''vert 1 '' @ bs @ ''rangle) '' @ bs @ ''rightarrow$ `Minus`'',
    '''',
    ''E.g. if you need to use the minus state in your code, you can use `Minus`:'']\<close>

definition part000_code_16 :: "string list" where
  \<open>part000_code_16 =
   [''print(f"\'Minus\' maps |0> to {Minus.eval(\'0\')}")'',
    ''print(f"\'Minus\' maps |1> to {Minus.eval(\'1\')}")'']\<close>

definition part000_md_17 :: "string list" where
  \<open>part000_md_17 =
   [''Multi-qubit state function objects can be created in a manner identical to '' @
    ''one-qubit state functions. As an example let us create a state function '' @
    ''object for the 2-qubit Bell state $'' @ bs @ ''vert '' @ bs @ ''Phi^{+} '' @ bs @
    ''rangle = '' @ bs @ ''frac{1}{'' @ bs @ ''sqrt{2}}('' @ bs @ ''vert 00 '' @ bs @
    ''rangle + '' @ bs @ ''vert 11 '' @ bs @ ''rangle)$'']\<close>

definition part000_code_18 :: "string list" where
  \<open>part000_code_18 =
   [''primitive = {\'00\': 1, \'11\': 1}'',
    ''coeff = 1 / np.sqrt(2)'',
    ''bell = StateFn(primitive, coeff)'',
    '''',
    ''for basis in [\'00\', \'01\', \'10\', \'11\']:'',
    ''    print(f"\'bell\' maps |{basis}> to {bell.eval(basis)}")'']\<close>

definition part000_md_19 :: "string list" where
  \<open>part000_md_19 =
   [''As you know there are a lot of quantum states that can be described as '' @
    ''tensor products of one-qubit states. The Bell state we have created above '' @
    ''is not a such state, but e.g. the 2-qubit uniform superposition state $'' @ bs @
    ''frac{1}{2}('' @ bs @ ''vert 00 '' @ bs @ ''rangle + '' @ bs @ ''vert 01 '' @ bs @
    ''rangle + '' @ bs @ ''vert 10 '' @ bs @ ''rangle + '' @ bs @ ''vert 11 '' @ bs @
    ''rangle) = '' @ bs @ ''frac{1}{'' @ bs @ ''sqrt{2}}('' @ bs @ ''vert 0 '' @ bs @
    ''rangle + '' @ bs @ ''vert 1 '' @ bs @ ''rangle) '' @ bs @ ''otimes '' @ bs @
    ''frac{1}{'' @ bs @ ''sqrt{2}}('' @ bs @ ''vert 0 '' @ bs @ ''rangle + '' @ bs @
    ''vert 1 '' @ bs @
    ''rangle)$ is. Instead of specifying 2-qubit amplitudes to create a state '' @
    ''function, as we did for the Bell state, we can use the tensoring capability '' @
    ''of state functions to create the uniform superposition state. Tensoring of '' @
    ''state functions can be done with the `.tensor()` function '' @
    ''(`Plus.tensor(Plus)`) or the `^` symbol (`Plus ^ Plus`). Tensoring can be '' @
    ''used also to do tensor powers, i.e. the second operand of tensoring can be '' @
    ''an integer instead of a state function  and this will mean the tensor power '' @
    ''of the first operand. E.g. let us create a uniform superposition state for '' @
    ''five qubits'']\<close>

definition part000_code_20 :: "string list" where
  \<open>part000_code_20 =
   [''uniform = Plus ^ 5'',
    ''uniform.primitive.draw()'']\<close>

definition part000_md_21 :: "string list" where
  \<open>part000_md_21 =
   [''We have described the introductory basics of Aqua state functions above. Of '' @
    ''course they support much more sophisticated functionality which is not '' @
    ''covered in this notebook. A few honorable mentions are the functions '' @
    ''`sample()` and `to_matrix()` which we encourage the readers to investigate '' @
    ''on their own.'']\<close>

definition part000_md_22 :: "string list" where
  \<open>part000_md_22 =
   [''## Operators'',
    '''',
    ''Now as we can build state functions we can define operations to transform '' @
    ''them. Aqua operators do exactly this. Let us define an operator which takes '' @
    ''the $'' @ bs @ ''vert - '' @ bs @ ''rangle$ state to the basis state $'' @ bs @
    ''vert 1'' @ bs @
    ''rangle$. As you know we could accomplish this with a Hadamard gate if we '' @
    ''were building a quantum circuit. Let us define an operator based on such a '' @
    ''quantum circuit'']\<close>

definition part000_code_23 :: "string list" where
  \<open>part000_code_23 =
   [''qc_hadamard = QuantumCircuit(1)'',
    ''qc_hadamard.h(0)'',
    ''op_hadamard = CircuitOp(qc_hadamard)'']\<close>

definition part000_md_24 :: "string list" where
  \<open>part000_md_24 =
   [''To make the operator `op_hadamard` act on the state `Minus` we need to '' @
    ''chain them together. The official term for this in Aqua is _composition_. '' @
    ''The symbol `@` can be used to compose the operator with the state function, '' @
    ''or the `.compose()` function: they are equivalent'']\<close>

definition part000_code_25 :: "string list" where
  \<open>part000_code_25 =
   [''(op_hadamard @ Minus).eval().sample()'']\<close>

definition part000_code_26 :: "string list" where
  \<open>part000_code_26 =
   [''op_hadamard.compose(Minus).eval().sample()'']\<close>

definition part000_md_27 :: "string list" where
  \<open>part000_md_27 =
   [''The state functions and operators have a similar interface. TODO: a few '' @
    ''sentences about lazy composition, the type of the object created as a '' @
    ''result of composition and the eval function....'']\<close>

definition part000_md_28 :: "string list" where
  \<open>part000_md_28 =
   [''TODO: other ways to create operators (one important class - Puli '' @
    ''operators)...'',
    '''',
    ''TODO: standard operators in operator globals....'']\<close>

definition part000_md_29 :: "string list" where
  \<open>part000_md_29 =
   [''## Evolutions'',
    '''',
    ''TODO:'',
    '''',
    ''TODO: building hamiltonians with operators (talk about SummedOp here as '' @
    ''well)....'']\<close>

definition part000_md_30 :: "string list" where
  \<open>part000_md_30 =
   [''## Measurements and Expectations'',
    '''',
    ''TODO:'']\<close>

definition part000_md_31 :: "string list" where
  \<open>part000_md_31 =
   [''## Example'',
    '''',
    ''TODO: provide a simple end to end example of initializing some state, '' @
    ''evolving it with some hamiltonian and measuring the expectation value of '' @
    ''something (e.g. the hamiltonian itself)....'']\<close>
definition part000_nb :: "cell list" where
  "part000_nb =
   [Markdown part000_md_0,
    Markdown part000_md_1,
    Code part000_code_2,
    Markdown part000_md_3,
    Code part000_code_4,
    Markdown part000_md_5,
    Code part000_code_6,
    Markdown part000_md_7,
    Markdown part000_md_8,
    Code part000_code_9,
    Markdown part000_md_10,
    Code part000_code_11,
    Markdown part000_md_12,
    Code part000_code_13,
    Markdown part000_md_14,
    Markdown part000_md_15,
    Code part000_code_16,
    Markdown part000_md_17,
    Code part000_code_18,
    Markdown part000_md_19,
    Code part000_code_20,
    Markdown part000_md_21,
    Markdown part000_md_22,
    Code part000_code_23,
    Markdown part000_md_24,
    Code part000_code_25,
    Code part000_code_26,
    Markdown part000_md_27,
    Markdown part000_md_28,
    Markdown part000_md_29,
    Markdown part000_md_30,
    Markdown part000_md_31]"

text \<open>The code cells of a notebook, each with its position and its source text.\<close>

definition code_cells :: "cell list \<Rightarrow> (nat \<times> string list) list" where
  "code_cells nb = map (\<lambda>(i, c). (i, source c)) (filter (\<lambda>(i, c). is_code c) (enumerate 0 nb))"


text \<open>
  The positions at which two notebooks hold the same cell (the same kind of cell with
  the same source text).
\<close>

definition agreeing_positions :: "cell list \<Rightarrow> cell list \<Rightarrow> nat list" where
  "agreeing_positions xs ys = map fst (filter (\<lambda>(i, x, y). x = y) (enumerate 0 (zip xs ys)))"


section \<open>The Python of the code cells\<close>

text \<open>
  The code cells are Python, read by the IPython kernel. Their abstract syntax follows
  the node names of Python's \<^verbatim>\<open>ast\<close> module. The expression forms are the ones the cells
  are written in. The statement forms are the simple statements of the cells, a line
  magic of IPython (\<^verbatim>\<open>%name\<close>), a comment line and a blank line, the \<^verbatim>\<open>for\<close> loop, and
  with it the statements of Python that branch, handle or raise exceptions, or define a
  function or a class. Python has more (\<^verbatim>\<open>while\<close>, \<^verbatim>\<open>with\<close>, ...); the cells use none of
  it, since each cell is, line by line, the printed form of a tree of these forms.
  A tree keeps what is needed to print the cell back character by character: the quote
  of a string literal, the parentheses, and whether a binary operator is set off by
  spaces.
\<close>

datatype quote = Single | Double

datatype binop = Add | Mult | Div | MatMult | BitXor

datatype spacing = Spaced | Tight

datatype expr =
    Name string
  | IntLit nat
  | BoolLit bool
  | StrLit quote string
  | JoinedStr "fpart list"
  | ListLit "expr list"
  | DictLit "item list"
  | Attribute expr string
  | Call expr "expr list" "keyword list"
  | BinOp spacing expr binop expr
  | UnaryMinus expr
  | Paren expr
and fpart = Literal string | FormattedValue expr
and item = Item expr expr
and keyword = Keyword string expr

datatype stmt =
    Import string "string option"
  | ImportFrom string "string list"
  | Assign string expr
  | Expr expr
  | Magic string
  | Comment string
  | Blank
  | For string expr "stmt list"
  | IfElse expr "stmt list" "stmt list"
  | Try "stmt list" "handler list"
  | FunctionDef string "string list" "stmt list"
  | ClassDef string "stmt list"
  | Raise expr
  | Assert expr
and handler = ExceptHandler "expr option" "stmt list"

subsection \<open>Printing a tree as source text\<close>

fun commas :: "string list \<Rightarrow> string" where
  "commas [] = []"
| "commas [x] = x"
| "commas (x # y # ys) = x @ '', '' @ commas (y # ys)"

definition digit_char :: "nat \<Rightarrow> char" where
  "digit_char d = ''0123456789'' ! d"

fun show_nat :: "nat \<Rightarrow> string" where
  "show_nat n = (if n < 10 then [digit_char n] else show_nat (n div 10) @ [digit_char (n mod 10)])"

fun quote_text :: "quote \<Rightarrow> string" where
  "quote_text Single = [CHR 0x27]"
| "quote_text Double = [CHR 0x22]"

fun binop_text :: "binop \<Rightarrow> string" where
  "binop_text Add = ''+''"
| "binop_text Mult = ''*''"
| "binop_text Div = ''/''"
| "binop_text MatMult = ''@''"
| "binop_text BitXor = ''^''"

fun spacing_text :: "spacing \<Rightarrow> string" where
  "spacing_text Spaced = '' ''"
| "spacing_text Tight = ''''"

fun unparse_expr :: "expr \<Rightarrow> string"
  and unparse_fpart :: "fpart \<Rightarrow> string"
  and unparse_item :: "item \<Rightarrow> string"
  and unparse_keyword :: "keyword \<Rightarrow> string" where
  "unparse_expr (Name x) = x"
| "unparse_expr (IntLit n) = show_nat n"
| "unparse_expr (BoolLit b) = (if b then ''True'' else ''False'')"
| "unparse_expr (StrLit q s) = quote_text q @ s @ quote_text q"
| "unparse_expr (JoinedStr ps) = ''f'' @ quote_text Double @ concat (map unparse_fpart ps) @ quote_text Double"
| "unparse_expr (ListLit es) = ''['' @ commas (map unparse_expr es) @ '']''"
| "unparse_expr (DictLit its) = ''{'' @ commas (map unparse_item its) @ ''}''"
| "unparse_expr (Attribute e a) = unparse_expr e @ ''.'' @ a"
| "unparse_expr (Call f as ks) =
     unparse_expr f @ ''('' @ commas (map unparse_expr as @ map unparse_keyword ks) @ '')''"
| "unparse_expr (BinOp sp l op r) =
     unparse_expr l @ spacing_text sp @ binop_text op @ spacing_text sp @ unparse_expr r"
| "unparse_expr (UnaryMinus e) = ''-'' @ unparse_expr e"
| "unparse_expr (Paren e) = ''('' @ unparse_expr e @ '')''"
| "unparse_fpart (Literal s) = s"
| "unparse_fpart (FormattedValue e) = ''{'' @ unparse_expr e @ ''}''"
| "unparse_item (Item k v) = unparse_expr k @ '': '' @ unparse_expr v"
| "unparse_keyword (Keyword k v) = k @ ''='' @ unparse_expr v"

definition indent :: "string list \<Rightarrow> string list" where
  "indent ls = map (\<lambda>l. ''    '' @ l) ls"

fun unparse_stmt :: "stmt \<Rightarrow> string list"
  and unparse_handler :: "handler \<Rightarrow> string list" where
  "unparse_stmt (Import m None) = [''import '' @ m]"
| "unparse_stmt (Import m (Some a)) = [''import '' @ m @ '' as '' @ a]"
| "unparse_stmt (ImportFrom m ns) = [''from '' @ m @ '' import '' @ commas ns]"
| "unparse_stmt (Assign x e) = [x @ '' = '' @ unparse_expr e]"
| "unparse_stmt (Expr e) = [unparse_expr e]"
| "unparse_stmt (Magic m) = [''%'' @ m]"
| "unparse_stmt (Comment c) = [''#'' @ c]"
| "unparse_stmt Blank = ['''']"
| "unparse_stmt (For x e body) =
     (''for '' @ x @ '' in '' @ unparse_expr e @ '':'') # indent (concat (map unparse_stmt body))"
| "unparse_stmt (IfElse c body orelse) =
     (''if '' @ unparse_expr c @ '':'') # indent (concat (map unparse_stmt body)) @
     (if orelse = [] then [] else ''else:'' # indent (concat (map unparse_stmt orelse)))"
| "unparse_stmt (Try body hs) =
     ''try:'' # indent (concat (map unparse_stmt body)) @ concat (map unparse_handler hs)"
| "unparse_stmt (FunctionDef f xs body) =
     (''def '' @ f @ ''('' @ commas xs @ ''):'') # indent (concat (map unparse_stmt body))"
| "unparse_stmt (ClassDef c body) =
     (''class '' @ c @ '':'') # indent (concat (map unparse_stmt body))"
| "unparse_stmt (Raise e) = [''raise '' @ unparse_expr e]"
| "unparse_stmt (Assert e) = [''assert '' @ unparse_expr e]"
| "unparse_handler (ExceptHandler None body) =
     ''except:'' # indent (concat (map unparse_stmt body))"
| "unparse_handler (ExceptHandler (Some t) body) =
     (''except '' @ unparse_expr t @ '':'') # indent (concat (map unparse_stmt body))"

definition unparse_cell :: "stmt list \<Rightarrow> string list" where
  "unparse_cell ss = concat (map unparse_stmt ss)"


subsection \<open>Well-formed trees\<close>

text \<open>
  Printing forgets the shape of a tree unless its leaves are what Python's grammar
  allows in their place. A name is an identifier and not a keyword; a module is a dotted
  list of identifiers; the text of a string literal holds neither its own quote nor a
  backslash, and the literal text of an f-string holds neither a double quote nor a
  brace; a comment and a literal are each within one line; a block is not empty.
\<close>

definition python_keywords :: "string list" where
  "python_keywords =
   [''False'', ''None'', ''True'', ''and'', ''as'', ''assert'', ''async'', ''await'',
    ''break'', ''class'', ''continue'', ''def'', ''del'', ''elif'', ''else'', ''except'',
    ''finally'', ''for'', ''from'', ''global'', ''if'', ''import'', ''in'', ''is'',
    ''lambda'', ''nonlocal'', ''not'', ''or'', ''pass'', ''raise'', ''return'', ''try'',
    ''while'', ''with'', ''yield'']"

definition letter :: "char \<Rightarrow> bool" where
  "letter c = (c \<in> set ''abcdefghijklmnopqrstuvwxyzABCDEFGHIJKLMNOPQRSTUVWXYZ_'')"

definition digit :: "char \<Rightarrow> bool" where
  "digit c = (c \<in> set ''0123456789'')"

fun identifier_chars :: "string \<Rightarrow> bool" where
  "identifier_chars [] = False"
| "identifier_chars (c # cs) = (letter c \<and> list_all (\<lambda>d. letter d \<or> digit d) cs)"

definition python_identifier :: "string \<Rightarrow> bool" where
  "python_identifier x = (identifier_chars x \<and> x \<notin> set python_keywords)"

text \<open>The parts of a dotted name: \<^verbatim>\<open>qiskit\<close>, \<^verbatim>\<open>aqua\<close>, \<^verbatim>\<open>operators\<close>.\<close>

fun split_dots :: "string \<Rightarrow> string \<Rightarrow> string list" where
  "split_dots acc [] = [rev acc]"
| "split_dots acc (c # cs) =
     (if c = CHR ''.'' then rev acc # split_dots [] cs else split_dots (c # acc) cs)"

definition dotted_name :: "string \<Rightarrow> bool" where
  "dotted_name m = list_all python_identifier (split_dots [] m)"

definition one_line :: "string \<Rightarrow> bool" where
  "one_line s = (CHR 0x0A \<notin> set s)"

fun well_formed_expr :: "expr \<Rightarrow> bool"
  and well_formed_fpart :: "fpart \<Rightarrow> bool"
  and well_formed_item :: "item \<Rightarrow> bool"
  and well_formed_keyword :: "keyword \<Rightarrow> bool" where
  "well_formed_expr (Name x) = python_identifier x"
| "well_formed_expr (IntLit n) = True"
| "well_formed_expr (BoolLit b) = True"
| "well_formed_expr (StrLit q s) =
     (one_line s \<and> CHR 0x5C \<notin> set s \<and> set (quote_text q) \<inter> set s = {})"
| "well_formed_expr (JoinedStr ps) = list_all well_formed_fpart ps"
| "well_formed_expr (ListLit es) = list_all well_formed_expr es"
| "well_formed_expr (DictLit its) = list_all well_formed_item its"
| "well_formed_expr (Attribute e a) = (well_formed_expr e \<and> python_identifier a)"
| "well_formed_expr (Call f as ks) =
     (well_formed_expr f \<and> list_all well_formed_expr as \<and> list_all well_formed_keyword ks)"
| "well_formed_expr (BinOp sp l op r) = (well_formed_expr l \<and> well_formed_expr r)"
| "well_formed_expr (UnaryMinus e) = well_formed_expr e"
| "well_formed_expr (Paren e) = well_formed_expr e"
| "well_formed_fpart (Literal s) = (one_line s \<and> set (quote_text Double @ ''{}'') \<inter> set s = {})"
| "well_formed_fpart (FormattedValue e) = well_formed_expr e"
| "well_formed_item (Item k v) = (well_formed_expr k \<and> well_formed_expr v)"
| "well_formed_keyword (Keyword k v) = (python_identifier k \<and> well_formed_expr v)"

fun well_formed :: "stmt \<Rightarrow> bool"
  and well_formed_handler :: "handler \<Rightarrow> bool" where
  "well_formed (Import m None) = dotted_name m"
| "well_formed (Import m (Some a)) = (dotted_name m \<and> python_identifier a)"
| "well_formed (ImportFrom m ns) =
     (dotted_name m \<and> ns \<noteq> [] \<and> (ns = [''*''] \<or> list_all python_identifier ns))"
| "well_formed (Assign x e) = (python_identifier x \<and> well_formed_expr e)"
| "well_formed (Expr e) = well_formed_expr e"
| "well_formed (Magic m) = python_identifier m"
| "well_formed (Comment c) = one_line c"
| "well_formed Blank = True"
| "well_formed (For x e body) =
     (python_identifier x \<and> well_formed_expr e \<and> body \<noteq> [] \<and> list_all well_formed body)"
| "well_formed (IfElse c body orelse) =
     (well_formed_expr c \<and> body \<noteq> [] \<and> list_all well_formed body \<and>
      list_all well_formed orelse)"
| "well_formed (Try body hs) =
     (body \<noteq> [] \<and> list_all well_formed body \<and> hs \<noteq> [] \<and>
      list_all well_formed_handler hs)"
| "well_formed (FunctionDef f xs body) =
     (python_identifier f \<and> list_all python_identifier xs \<and> body \<noteq> [] \<and> list_all well_formed body)"
| "well_formed (ClassDef c body) = (python_identifier c \<and> body \<noteq> [] \<and> list_all well_formed body)"
| "well_formed (Raise e) = well_formed_expr e"
| "well_formed (Assert e) = well_formed_expr e"
| "well_formed_handler (ExceptHandler None body) = (body \<noteq> [] \<and> list_all well_formed body)"
| "well_formed_handler (ExceptHandler (Some t) body) =
     (well_formed_expr t \<and> body \<noteq> [] \<and> list_all well_formed body)"


subsection \<open>The code cells of the tutorial notebook, parsed\<close>

text \<open>
  One definition per code cell, named by the position of the cell in the notebook.
\<close>

definition tutorial_ast_2 :: "stmt list" where
  "tutorial_ast_2 =
   [ImportFrom ''qiskit'' [''BasicAer'', ''QuantumCircuit''],
    ImportFrom ''qiskit.aqua.operators'' [''*''],
    ImportFrom ''qiskit.circuit'' [''Parameter''],
    ImportFrom ''qiskit.quantum_info'' [''Pauli''],
    Import ''numpy'' (Some ''np'')]"

definition tutorial_ast_4 :: "stmt list" where
  "tutorial_ast_4 =
   [Assign ''amplitudes'' (ListLit [IntLit 1, UnaryMinus (IntLit 1)]),
    Assign ''normalization_coefficient''
      (BinOp Spaced (IntLit 1) Div (Call (Attribute (Name ''np'') ''sqrt'') [IntLit 2] [])),
    Assign ''psi_minus''
      (Call (Name ''StateFn'') [Name ''amplitudes'']
        [Keyword ''coeff'' (Name ''normalization_coefficient'')])]"

definition tutorial_ast_6 :: "stmt list" where
  \<open>tutorial_ast_6 =
   [Expr (Call (Name ''print'')
      [JoinedStr [Literal ''The ket |0> is mapped to '',
         FormattedValue (Call (Attribute (Name ''psi_minus'') ''eval'') [StrLit Single ''0''] [])]] []),
    Expr (Call (Name ''print'')
      [JoinedStr [Literal ''The ket |1> is mapped to '',
         FormattedValue (Call (Attribute (Name ''psi_minus'') ''eval'') [StrLit Single ''1''] [])]] [])]\<close>

definition tutorial_ast_9 :: "stmt list" where
  "tutorial_ast_9 = [Expr (Call (Name ''type'') [Name ''psi_minus''] [])]"

definition tutorial_ast_11 :: "stmt list" where
  "tutorial_ast_11 =
   [Assign ''mapping''
      (DictLit [Item (StrLit Single ''0'') (IntLit 1),
                Item (StrLit Single ''1'') (UnaryMinus (IntLit 1))]),
    Assign ''psi_minus_dict''
      (Call (Name ''StateFn'') [Name ''mapping'']
        [Keyword ''coeff'' (Name ''normalization_coefficient'')]),
    Expr (Call (Name ''type'') [Name ''psi_minus_dict''] [])]"

definition tutorial_ast_13 :: "stmt list" where
  "tutorial_ast_13 =
   [Assign ''qc'' (Call (Name ''QuantumCircuit'') [IntLit 1] []),
    Expr (Call (Attribute (Name ''qc'') ''h'') [IntLit 0] []),
    Expr (Call (Attribute (Name ''qc'') ''z'') [IntLit 0] []),
    Assign ''psi_minus_qc'' (Call (Name ''StateFn'') [Name ''qc''] []),
    Expr (Call (Name ''type'') [Name ''psi_minus_qc''] [])]"

definition tutorial_ast_16 :: "stmt list" where
  \<open>tutorial_ast_16 =
   [Expr (Call (Name ''print'')
      [JoinedStr [Literal ''\'Minus\' maps |0> to '',
         FormattedValue (Call (Attribute (Name ''Minus'') ''eval'') [StrLit Single ''0''] [])]] []),
    Expr (Call (Name ''print'')
      [JoinedStr [Literal ''\'Minus\' maps |1> to '',
         FormattedValue (Call (Attribute (Name ''Minus'') ''eval'') [StrLit Single ''1''] [])]] [])]\<close>

definition tutorial_ast_18 :: "stmt list" where
  \<open>tutorial_ast_18 =
   [Assign ''primitive''
      (DictLit [Item (StrLit Single ''00'') (IntLit 1), Item (StrLit Single ''11'') (IntLit 1)]),
    Assign ''coeff''
      (BinOp Spaced (IntLit 1) Div (Call (Attribute (Name ''np'') ''sqrt'') [IntLit 2] [])),
    Assign ''bell'' (Call (Name ''StateFn'') [Name ''primitive'', Name ''coeff''] []),
    Blank,
    For ''basis''
      (ListLit [StrLit Single ''00'', StrLit Single ''01'', StrLit Single ''10'',
                StrLit Single ''11''])
      [Expr (Call (Name ''print'')
         [JoinedStr [Literal ''\'bell\' maps |'', FormattedValue (Name ''basis''),
            Literal ''> to '',
            FormattedValue (Call (Attribute (Name ''bell'') ''eval'') [Name ''basis''] [])]] [])]]\<close>

definition tutorial_ast_20 :: "stmt list" where
  "tutorial_ast_20 =
   [Assign ''uniform'' (BinOp Spaced (Name ''Plus'') BitXor (IntLit 5)),
    Expr (Call (Attribute (Attribute (Name ''uniform'') ''primitive'') ''draw'') [] [])]"

definition tutorial_ast_23 :: "stmt list" where
  "tutorial_ast_23 =
   [Assign ''qc_hadamard'' (Call (Name ''QuantumCircuit'') [IntLit 1] []),
    Expr (Call (Attribute (Name ''qc_hadamard'') ''h'') [IntLit 0] []),
    Assign ''op_hadamard'' (Call (Name ''CircuitOp'') [Name ''qc_hadamard''] [])]"

definition tutorial_ast_25 :: "stmt list" where
  "tutorial_ast_25 =
   [Expr (Call (Attribute
      (Call (Attribute (Paren (BinOp Spaced (Name ''op_hadamard'') MatMult (Name ''Minus'')))
         ''eval'') [] [])
      ''sample'') [] [])]"

definition tutorial_ast_26 :: "stmt list" where
  "tutorial_ast_26 =
   [Expr (Call (Attribute
      (Call (Attribute
         (Call (Attribute (Name ''op_hadamard'') ''compose'') [Name ''Minus''] [])
         ''eval'') [] [])
      ''sample'') [] [])]"

definition tutorial_ast_29 :: "stmt list" where
  "tutorial_ast_29 =
   [Assign ''matrix_x''
      (Call (Attribute (Name ''np'') ''array'')
        [ListLit [ListLit [IntLit 0, IntLit 1], ListLit [IntLit 1, IntLit 0]]] []),
    Assign ''op_x'' (Call (Name ''MatrixOp'') [Name ''matrix_x''] [])]"

definition tutorial_ast_31 :: "stmt list" where
  "tutorial_ast_31 =
   [Expr (Call (Attribute
      (Call (Attribute (Paren (BinOp Spaced (Name ''op_x'') MatMult (Name ''Zero'')))
         ''eval'') [] [])
      ''sample'') [] [])]"

definition tutorial_ast_32 :: "stmt list" where
  "tutorial_ast_32 =
   [Expr (Call (Attribute
      (Call (Attribute (Paren (BinOp Spaced (Name ''op_x'') MatMult (Name ''One'')))
         ''eval'') [] [])
      ''sample'') [] [])]"

definition tutorial_ast_34 :: "stmt list" where
  "tutorial_ast_34 =
   [Assign ''op_x_terra''
      (Call (Name ''PauliOp'')
        [Call (Name ''Pauli'') []
           [Keyword ''z'' (ListLit [BoolLit False]), Keyword ''x'' (ListLit [BoolLit True])]] []),
    Expr (Call (Name ''print'') [Call (Name ''repr'') [Name ''op_x_terra''] []] [])]"

definition tutorial_ast_37 :: "stmt list" where
  "tutorial_ast_37 =
   [Assign ''hamiltonian''
      (BinOp Spaced
        (BinOp Spaced (Paren (BinOp Tight (Name ''X'') BitXor (Name ''X''))) Add
                      (Paren (BinOp Tight (Name ''Y'') BitXor (Name ''Y''))))
        Add (Paren (BinOp Tight (Name ''Z'') BitXor (Name ''Z'')))),
    Expr (Call (Name ''print'') [Name ''hamiltonian''] [])]"

definition tutorial_ast_39 :: "stmt list" where
  "tutorial_ast_39 =
   [Assign ''evolution_param'' (Call (Name ''Parameter'') [StrLit Single theta] []),
    Assign ''evolution_op''
      (Call (Attribute
         (Paren (BinOp Spaced (Name ''evolution_param'') Mult (Name ''hamiltonian'')))
         ''exp_i'') [] []),
    Expr (Call (Name ''print'') [Name ''evolution_op''] [])]"

definition tutorial_ast_41 :: "stmt list" where
  "tutorial_ast_41 =
   [Expr (Call (Name ''print'') [Call (Name ''repr'') [Name ''evolution_op''] []] [])]"

definition tutorial_ast_44 :: "stmt list" where
  "tutorial_ast_44 =
   [Expr (Call (Name ''print'')
      [JoinedStr [Literal ''<0|: '',
         FormattedValue (Call (Attribute (Name ''Zero'') ''adjoint'') [] [])]] []),
    Expr (Call (Name ''print'')
      [JoinedStr [Literal ''<0|1>: '',
         FormattedValue
           (Call (Attribute (Call (Attribute (Name ''Zero'') ''adjoint'') [] []) ''eval'')
              [Name ''One''] [])]] []),
    Expr (Call (Name ''print'')
      [JoinedStr [Literal ''<0|+>: '',
         FormattedValue
           (Call (Attribute (Call (Attribute (Name ''Zero'') ''adjoint'') [] []) ''eval'')
              [Name ''Plus''] [])]] []),
    Expr (Call (Name ''print'')
      [JoinedStr [Literal ''<1|Z|+>: '',
         FormattedValue
           (Call (Attribute
              (Paren (BinOp Spaced
                 (BinOp Spaced (Call (Attribute (Name ''One'') ''adjoint'') [] []) MatMult
                    (Name ''Z''))
                 MatMult (Name ''Plus'')))
              ''eval'') [] [])]] [])]"

definition tutorial_ast_47 :: "stmt list" where
  "tutorial_ast_47 =
   [Assign ''hamiltonian_meas''
      (Call (Attribute (Call (Name ''StateFn'') [Name ''hamiltonian''] []) ''adjoint'') [] []),
    Expr (Call (Name ''print'')
      [Call (Attribute (Call (Name ''PauliExpectation'') [] []) ''convert'')
         [Name ''hamiltonian_meas''] []] [])]"

definition tutorial_ast_49 :: "stmt list" where
  "tutorial_ast_49 =
   [Assign ''hamiltonian2''
      (BinOp Spaced (Paren (BinOp Tight (Name ''I'') BitXor (Name ''X''))) Add
                    (Paren (BinOp Tight (Name ''X'') BitXor (Name ''I'')))),
    Assign ''hamiltonian2_meas''
      (Call (Attribute (Call (Name ''StateFn'') [Name ''hamiltonian2''] []) ''adjoint'') [] []),
    Expr (Call (Name ''print'')
      [Call (Attribute (Call (Name ''PauliExpectation'') [] []) ''convert'')
         [Name ''hamiltonian2_meas''] []] [])]"

definition tutorial_ast_52 :: "stmt list" where
  "tutorial_ast_52 =
   [Comment '' Heisenberg Hamiltonian'',
    Assign ''hamiltonian''
      (BinOp Spaced
        (BinOp Spaced (Paren (BinOp Tight (Name ''X'') BitXor (Name ''X''))) Add
                      (Paren (BinOp Tight (Name ''Y'') BitXor (Name ''Y''))))
        Add (Paren (BinOp Tight (Name ''Z'') BitXor (Name ''Z'')))),
    Blank,
    Comment '' Initial State -- Bell state Phi+'',
    Assign ''bell''
      (BinOp Spaced (Name ''CX'') MatMult
        (Paren (BinOp Tight (Name ''Plus'') BitXor (Name ''Zero'')))),
    Blank,
    Comment '' Time evolution operator'',
    Assign ''evolution_param'' (Call (Name ''Parameter'') [StrLit Double theta] []),
    Assign ''evolution_op''
      (Call (Attribute
         (Paren (BinOp Spaced (Name ''evolution_param'') Mult (Name ''hamiltonian'')))
         ''exp_i'') [] []),
    Blank,
    Comment '' Measurement of the Hamiltonian with the time evolved state'',
    Assign ''evo_and_meas''
      (BinOp Spaced
        (BinOp Spaced
          (Call (Attribute (Call (Name ''StateFn'') [Name ''hamiltonian''] []) ''adjoint'') [] [])
          MatMult (Name ''evolution_op''))
        MatMult (Name ''bell'')),
    Blank,
    Comment '' Trotterization'',
    Assign ''trotterized_op''
      (Call (Attribute
         (Call (Name ''PauliTrotterEvolution'') []
            [Keyword ''trotter_mode'' (Call (Name ''Suzuki'') [] [])])
         ''convert'') [Name ''evo_and_meas''] []),
    Blank,
    Comment '' Diagonalize the measurement'',
    Assign ''diagonalized_meas_op''
      (Call (Attribute (Call (Name ''PauliExpectation'') [] []) ''convert'')
         [Name ''trotterized_op''] []),
    Blank,
    Comment '' Measure energies by Trotterization an sampling'',
    Assign ''time_array'' (Call (Name ''list'') [Call (Name ''range'') [IntLit 10] []] []),
    Assign ''expectations''
      (Call (Attribute (Name ''diagonalized_meas_op'') ''bind_parameters'')
         [DictLit [Item (Name ''evolution_param'') (Name ''time_array'')]] []),
    Assign ''sampler''
      (Call (Name ''CircuitSampler'') []
         [Keyword ''backend''
            (Call (Attribute (Name ''BasicAer'') ''get_backend'')
               [StrLit Double ''qasm_simulator''] [])]),
    Assign ''sampled_expectations''
      (Call (Attribute (Name ''sampler'') ''convert'') [Name ''expectations''] []),
    Assign ''sampled_energies''
      (Call (Attribute (Name ''sampled_expectations'') ''eval'') [] []),
    Expr (Call (Name ''print'')
      [JoinedStr [Literal (''Sampled energies after Trotterization:'' @ bs @ ''n ''),
         FormattedValue (Call (Attribute (Name ''np'') ''real'') [Name ''sampled_energies''] [])]]
      [])]"

definition tutorial_ast_53 :: "stmt list" where
  "tutorial_ast_53 =
   [Import ''qiskit.tools.jupyter'' None,
    Magic ''qiskit_version_table'',
    Magic ''qiskit_copyright'']"

text \<open>The parsed code cells, each with its position in the notebook.\<close>

definition tutorial_parsed :: "(nat \<times> stmt list) list" where
  "tutorial_parsed =
   [(2, tutorial_ast_2), (4, tutorial_ast_4), (6, tutorial_ast_6), (9, tutorial_ast_9),
    (11, tutorial_ast_11), (13, tutorial_ast_13), (16, tutorial_ast_16),
    (18, tutorial_ast_18), (20, tutorial_ast_20), (23, tutorial_ast_23),
    (25, tutorial_ast_25), (26, tutorial_ast_26), (29, tutorial_ast_29),
    (31, tutorial_ast_31), (32, tutorial_ast_32), (34, tutorial_ast_34),
    (37, tutorial_ast_37), (39, tutorial_ast_39), (41, tutorial_ast_41),
    (44, tutorial_ast_44), (47, tutorial_ast_47), (49, tutorial_ast_49),
    (52, tutorial_ast_52), (53, tutorial_ast_53)]"

subsection \<open>The code cells of \<^verbatim>\<open>part_000\<close>, parsed\<close>

text \<open>
  The import cell of \<^verbatim>\<open>part_000\<close> is its own; each of its other code cells has the
  text of the tutorial notebook's cell at the same position, and so the same tree.
\<close>

definition part000_ast_2 :: "stmt list" where
  "part000_ast_2 =
   [ImportFrom ''qiskit.aqua.operators'' [''*''],
    ImportFrom ''qiskit'' [''QuantumCircuit''],
    ImportFrom ''qiskit.circuit'' [''Parameter''],
    Import ''numpy'' (Some ''np'')]"

definition part000_parsed :: "(nat \<times> stmt list) list" where
  "part000_parsed =
   [(2, part000_ast_2), (4, tutorial_ast_4), (6, tutorial_ast_6), (9, tutorial_ast_9),
    (11, tutorial_ast_11), (13, tutorial_ast_13), (16, tutorial_ast_16),
    (18, tutorial_ast_18), (20, tutorial_ast_20), (23, tutorial_ast_23),
    (25, tutorial_ast_25), (26, tutorial_ast_26)]"

text \<open>
  Printing each parsed cell gives source text, position by position. A list of parsed
  cells is the code of a notebook when its statements are well-formed and its printed
  form is the list of the notebook's code cells: the same positions, the same text, no
  code cell left out.
\<close>

definition unparse_all :: "(nat \<times> stmt list) list \<Rightarrow> (nat \<times> string list) list" where
  "unparse_all ps = map (\<lambda>(i, p). (i, unparse_cell p)) ps"

definition parsed_from :: "(nat \<times> stmt list) list \<Rightarrow> cell list \<Rightarrow> bool" where
  "parsed_from ps nb =
     (unparse_all ps = code_cells nb \<and> list_all (\<lambda>(i, p). list_all well_formed p) ps)"


section \<open>Reading the parsed cells\<close>

text \<open>
  The kernel runs the code cells in the order of the notebook, in one namespace: a
  notebook's program is its code cells one after the other.
\<close>

definition program :: "(nat \<times> stmt list) list \<Rightarrow> stmt list" where
  "program ps = concat (map snd ps)"

text \<open>A list without its repetitions, each element where it first stands.\<close>

definition first_seen :: "'a list \<Rightarrow> 'a list" where
  "first_seen xs = rev (remdups (rev xs))"

subsection \<open>Statements that are not simple\<close>

text \<open>
  A compound statement is a loop, a branch, a \<^verbatim>\<open>try\<close> statement or the definition of a
  function or a class. A cell is straight-line code when none of its statements is
  compound.
\<close>

fun compound :: "stmt \<Rightarrow> bool" where
  "compound (For _ _ _) = True"
| "compound (IfElse _ _ _) = True"
| "compound (Try _ _) = True"
| "compound (FunctionDef _ _ _) = True"
| "compound (ClassDef _ _) = True"
| "compound _ = False"

definition straight_line :: "stmt list \<Rightarrow> bool" where
  "straight_line ss = (filter compound ss = [])"

definition not_straight_line :: "(nat \<times> stmt list) list \<Rightarrow> nat list" where
  "not_straight_line ps = map fst (filter (\<lambda>(i, p). \<not> straight_line p) ps)"

text \<open>
  The statements of error handling, at any depth: a \<^verbatim>\<open>try\<close> statement, a branch, and
  the \<^verbatim>\<open>raise\<close> and \<^verbatim>\<open>assert\<close> statements by which code reports a failed check of its
  own.
\<close>

fun error_handling :: "stmt \<Rightarrow> stmt list"
  and error_handling_in :: "handler \<Rightarrow> stmt list" where
  "error_handling (For x e body) = concat (map error_handling body)"
| "error_handling (IfElse c body orelse) =
     IfElse c body orelse # concat (map error_handling body) @ concat (map error_handling orelse)"
| "error_handling (Try body hs) =
     Try body hs # concat (map error_handling body) @ concat (map error_handling_in hs)"
| "error_handling (FunctionDef f xs body) = concat (map error_handling body)"
| "error_handling (ClassDef c body) = concat (map error_handling body)"
| "error_handling (Raise e) = [Raise e]"
| "error_handling (Assert e) = [Assert e]"
| "error_handling _ = []"
| "error_handling_in (ExceptHandler t body) = concat (map error_handling body)"

text \<open>The function and class definitions, at any depth, by name.\<close>

fun definitions :: "stmt \<Rightarrow> string list"
  and definitions_in :: "handler \<Rightarrow> string list" where
  "definitions (For x e body) = concat (map definitions body)"
| "definitions (IfElse c body orelse) =
     concat (map definitions body) @ concat (map definitions orelse)"
| "definitions (Try body hs) = concat (map definitions body) @ concat (map definitions_in hs)"
| "definitions (FunctionDef f xs body) = f # concat (map definitions body)"
| "definitions (ClassDef c body) = c # concat (map definitions body)"
| "definitions _ = []"
| "definitions_in (ExceptHandler t body) = concat (map definitions body)"

subsection \<open>Imports\<close>

fun imported_modules :: "stmt \<Rightarrow> string list"
  and imported_modules_in :: "handler \<Rightarrow> string list" where
  "imported_modules (Import m a) = [m]"
| "imported_modules (ImportFrom m ns) = [m]"
| "imported_modules (For x e body) = concat (map imported_modules body)"
| "imported_modules (IfElse c body orelse) =
     concat (map imported_modules body) @ concat (map imported_modules orelse)"
| "imported_modules (Try body hs) =
     concat (map imported_modules body) @ concat (map imported_modules_in hs)"
| "imported_modules (FunctionDef f xs body) = concat (map imported_modules body)"
| "imported_modules (ClassDef c body) = concat (map imported_modules body)"
| "imported_modules _ = []"
| "imported_modules_in (ExceptHandler t body) = concat (map imported_modules body)"

text \<open>The top-level package of a dotted module name: \<^verbatim>\<open>qiskit\<close> for \<^verbatim>\<open>qiskit.circuit\<close>.\<close>

definition top_package :: "string \<Rightarrow> string" where
  "top_package m = takeWhile (\<lambda>c. c \<noteq> CHR ''.'') m"

fun star_import :: "stmt \<Rightarrow> string list" where
  "star_import (ImportFrom m ns) = (if ''*'' \<in> set ns then [m] else [])"
| "star_import _ = []"

subsection \<open>Expressions\<close>

text \<open>An expression with all the expressions inside it, itself first.\<close>

fun subexprs :: "expr \<Rightarrow> expr list"
  and subexprs_fpart :: "fpart \<Rightarrow> expr list"
  and subexprs_item :: "item \<Rightarrow> expr list"
  and subexprs_keyword :: "keyword \<Rightarrow> expr list" where
  "subexprs (Name x) = [Name x]"
| "subexprs (IntLit n) = [IntLit n]"
| "subexprs (BoolLit b) = [BoolLit b]"
| "subexprs (StrLit q s) = [StrLit q s]"
| "subexprs (JoinedStr ps) = JoinedStr ps # concat (map subexprs_fpart ps)"
| "subexprs (ListLit es) = ListLit es # concat (map subexprs es)"
| "subexprs (DictLit its) = DictLit its # concat (map subexprs_item its)"
| "subexprs (Attribute e a) = Attribute e a # subexprs e"
| "subexprs (Call f as ks) =
     Call f as ks # subexprs f @ concat (map subexprs as) @ concat (map subexprs_keyword ks)"
| "subexprs (BinOp sp l op r) = BinOp sp l op r # subexprs l @ subexprs r"
| "subexprs (UnaryMinus e) = UnaryMinus e # subexprs e"
| "subexprs (Paren e) = Paren e # subexprs e"
| "subexprs_fpart (Literal s) = []"
| "subexprs_fpart (FormattedValue e) = subexprs e"
| "subexprs_item (Item k v) = subexprs k @ subexprs v"
| "subexprs_keyword (Keyword k v) = subexprs v"

text \<open>The expressions of a statement, with those of the statements in its body.\<close>

fun stmt_exprs :: "stmt \<Rightarrow> expr list"
  and handler_exprs :: "handler \<Rightarrow> expr list" where
  "stmt_exprs (Assign x e) = subexprs e"
| "stmt_exprs (Expr e) = subexprs e"
| "stmt_exprs (For x e body) = subexprs e @ concat (map stmt_exprs body)"
| "stmt_exprs (IfElse c body orelse) =
     subexprs c @ concat (map stmt_exprs body) @ concat (map stmt_exprs orelse)"
| "stmt_exprs (Try body hs) = concat (map stmt_exprs body) @ concat (map handler_exprs hs)"
| "stmt_exprs (FunctionDef f xs body) = concat (map stmt_exprs body)"
| "stmt_exprs (ClassDef c body) = concat (map stmt_exprs body)"
| "stmt_exprs (Raise e) = subexprs e"
| "stmt_exprs (Assert e) = subexprs e"
| "stmt_exprs _ = []"
| "handler_exprs (ExceptHandler None body) = concat (map stmt_exprs body)"
| "handler_exprs (ExceptHandler (Some t) body) = subexprs t @ concat (map stmt_exprs body)"

definition exprs :: "stmt list \<Rightarrow> expr list" where
  "exprs ss = concat (map stmt_exprs ss)"


fun read_name :: "expr \<Rightarrow> string list" where
  "read_name (Name x) = [x]"
| "read_name _ = []"

fun read_attribute :: "expr \<Rightarrow> string list" where
  "read_attribute (Attribute e a) = [a]"
| "read_attribute _ = []"




definition names_read :: "stmt list \<Rightarrow> string list" where
  "names_read ss = first_seen (concat (map read_name (exprs ss)))"



definition attributes_read :: "stmt list \<Rightarrow> string list" where
  "attributes_read ss = first_seen (concat (map read_attribute (exprs ss)))"

subsection \<open>Private names, and builtins that reach outside\<close>

text \<open>
  By Python's convention a name that starts with an underscore is private to the module
  or class that defines it; the other names are its public interface.
\<close>

definition is_private :: "string \<Rightarrow> bool" where
  "is_private n = (take 1 n = ''_'')"



section \<open>Who performs each operation\<close>

text \<open>
  Where a value comes from decides whose code runs when a cell calls it, calls a method
  on it or applies an operator to it. The origin of a value is the module it was
  imported from or was obtained from (by a call, an attribute or an operator), or
  Python itself (a literal or a builtin and what the builtins return), or the notebook
  (a function or class that a cell defines); the origin of a name that nothing binds is
  unknown. Line magics are run by IPython.
\<close>

datatype origin = From string | Python | IPython | Notebook | Unknown

text \<open>The builtin functions of Python 3.7, the version the notebook records.\<close>

definition python_builtins :: "string list" where
  "python_builtins =
   [''abs'', ''all'', ''any'', ''ascii'', ''bin'', ''bool'', ''breakpoint'', ''bytearray'',
    ''bytes'', ''callable'', ''chr'', ''classmethod'', ''compile'', ''complex'', ''delattr'',
    ''dict'', ''dir'', ''divmod'', ''enumerate'', ''eval'', ''exec'', ''filter'', ''float'',
    ''format'', ''frozenset'', ''getattr'', ''globals'', ''hasattr'', ''hash'', ''help'',
    ''hex'', ''id'', ''input'', ''int'', ''isinstance'', ''issubclass'', ''iter'', ''len'',
    ''list'', ''locals'', ''map'', ''max'', ''memoryview'', ''min'', ''next'', ''object'',
    ''oct'', ''open'', ''ord'', ''pow'', ''print'', ''property'', ''range'', ''repr'',
    ''reversed'', ''round'', ''set'', ''setattr'', ''slice'', ''sorted'', ''staticmethod'',
    ''str'', ''sum'', ''super'', ''tuple'', ''type'', ''vars'', ''zip'', ''__import__'']"

text \<open>
  The namespace of the kernel, as far as the notebook shows it: the names that its
  statements have bound, the latest binding first, each with the origin of its value;
  and the modules of the star imports run so far. A name is looked up among the
  bindings, then among the builtins, and is otherwise a name of the star import. (Python
  looks among the names of a star import before the builtins, and a star import may
  bind again a name bound before it; which names a module exports is not in the
  notebook.) With no star import, or more than one, the origin of such a name is unknown.
\<close>

record namespace =
  bindings :: "(string \<times> origin) list"
  stars :: "string list"

definition empty_namespace :: namespace where
  "empty_namespace = \<lparr>bindings = [], stars = []\<rparr>"

definition bind_name :: "string \<Rightarrow> origin \<Rightarrow> namespace \<Rightarrow> namespace" where
  "bind_name x v E = E\<lparr>bindings := (x, v) # bindings E\<rparr>"

definition lookup :: "namespace \<Rightarrow> string \<Rightarrow> origin" where
  "lookup E x =
     (case map_of (bindings E) x of
        Some v \<Rightarrow> v
      | None \<Rightarrow>
          if x \<in> set python_builtins then Python
          else (case stars E of [m] \<Rightarrow> From m | _ \<Rightarrow> Unknown))"

text \<open>
  Python hands a binary operator to the type of its left operand first and then, if
  that declines, to the type of its right operand. So an operator between a value of
  Python's own and another value is performed by the code of the other value, and an
  operator between two values of one package by the code of that package. Between
  values of two packages the notebook does not show who performs it.
\<close>

fun dispatch :: "origin \<Rightarrow> origin \<Rightarrow> origin" where
  "dispatch Python r = r"
| "dispatch l Python = l"
| "dispatch (From m) (From n) = (if top_package m = top_package n then From m else Unknown)"
| "dispatch l r = (if l = r then l else Unknown)"

fun origin_of :: "namespace \<Rightarrow> expr \<Rightarrow> origin" where
  "origin_of E (Name x) = lookup E x"
| "origin_of E (Attribute e a) = origin_of E e"
| "origin_of E (Call f as ks) = origin_of E f"
| "origin_of E (BinOp sp l op r) = dispatch (origin_of E l) (origin_of E r)"
| "origin_of E (UnaryMinus e) = origin_of E e"
| "origin_of E (Paren e) = origin_of E e"
| "origin_of E _ = Python"

text \<open>
  What a cell asks for when it runs: the call of a function by name, the call of a
  method or the reading of an attribute of a value, the call of any other value, a
  binary operator with the origins of its two operands, a unary minus, a line magic.
\<close>

datatype use =
    CallName string origin
  | CallMethod string origin
  | CallValue origin
  | GetAttr string origin
  | Operator binop origin origin
  | Negate origin
  | LineMagic string

fun uses :: "namespace \<Rightarrow> expr \<Rightarrow> use list"
  and uses_fpart :: "namespace \<Rightarrow> fpart \<Rightarrow> use list"
  and uses_item :: "namespace \<Rightarrow> item \<Rightarrow> use list"
  and uses_keyword :: "namespace \<Rightarrow> keyword \<Rightarrow> use list" where
  "uses E (Name x) = []"
| "uses E (IntLit n) = []"
| "uses E (BoolLit b) = []"
| "uses E (StrLit q s) = []"
| "uses E (JoinedStr ps) = concat (map (uses_fpart E) ps)"
| "uses E (ListLit es) = concat (map (uses E) es)"
| "uses E (DictLit its) = concat (map (uses_item E) its)"
| "uses E (Attribute e a) = uses E e @ [GetAttr a (origin_of E e)]"
| "uses E (Call (Name f) as ks) =
     concat (map (uses E) as) @ concat (map (uses_keyword E) ks) @ [CallName f (lookup E f)]"
| "uses E (Call (Attribute e a) as ks) =
     uses E e @ concat (map (uses E) as) @ concat (map (uses_keyword E) ks) @
     [CallMethod a (origin_of E e)]"
| "uses E (Call f as ks) =
     uses E f @ concat (map (uses E) as) @ concat (map (uses_keyword E) ks) @
     [CallValue (origin_of E f)]"
| "uses E (BinOp sp l op r) =
     uses E l @ uses E r @ [Operator op (origin_of E l) (origin_of E r)]"
| "uses E (UnaryMinus e) = uses E e @ [Negate (origin_of E e)]"
| "uses E (Paren e) = uses E e"
| "uses_fpart E (Literal s) = []"
| "uses_fpart E (FormattedValue e) = uses E e"
| "uses_item E (Item k v) = uses E k @ uses E v"
| "uses_keyword E (Keyword k v) = uses E v"

text \<open>
  The namespace after a statement. The variable of a loop over a list display has the
  origin of the items displayed. The body of a function or class definition binds
  nothing in the namespace of the kernel.
\<close>

fun items_origin :: "namespace \<Rightarrow> expr \<Rightarrow> origin" where
  "items_origin E (ListLit es) = foldr dispatch (map (origin_of E) es) Python"
| "items_origin E e = origin_of E e"

fun import_from :: "string \<Rightarrow> string list \<Rightarrow> namespace \<Rightarrow> namespace" where
  "import_from m [] E = E"
| "import_from m (n # ns) E =
     import_from m ns
       (if n = ''*'' then E\<lparr>stars := m # stars E\<rparr> else bind_name n (From m) E)"

fun after :: "namespace \<Rightarrow> stmt list \<Rightarrow> namespace"
  and after_handlers :: "namespace \<Rightarrow> handler list \<Rightarrow> namespace" where
  "after E [] = E"
| "after E (Import m None # ss) = after (bind_name (top_package m) (From (top_package m)) E) ss"
| "after E (Import m (Some a) # ss) = after (bind_name a (From m) E) ss"
| "after E (ImportFrom m ns # ss) = after (import_from m ns E) ss"
| "after E (Assign x e # ss) = after (bind_name x (origin_of E e) E) ss"
| "after E (For x e body # ss) = after (after (bind_name x (items_origin E e) E) body) ss"
| "after E (IfElse c body orelse # ss) = after (after (after E body) orelse) ss"
| "after E (Try body hs # ss) = after (after_handlers (after E body) hs) ss"
| "after E (FunctionDef f xs body # ss) = after (bind_name f Notebook E) ss"
| "after E (ClassDef c body # ss) = after (bind_name c Notebook E) ss"
| "after E (s # ss) = after E ss"
| "after_handlers E [] = E"
| "after_handlers E (ExceptHandler t body # hs) = after_handlers (after E body) hs"

text \<open>
  The uses of a program, statement by statement in the order of the text, each read in
  the namespace that the statements before it leave. The body of a function or class
  definition is not read: what it uses, it uses when it is called, and the call is a
  use of origin \<^const>\<open>Notebook\<close>.
\<close>

fun uses_of :: "namespace \<Rightarrow> stmt list \<Rightarrow> use list"
  and uses_of_handlers :: "namespace \<Rightarrow> handler list \<Rightarrow> use list" where
  "uses_of E [] = []"
| "uses_of E (Assign x e # ss) = uses E e @ uses_of (after E [Assign x e]) ss"
| "uses_of E (Expr e # ss) = uses E e @ uses_of E ss"
| "uses_of E (Raise e # ss) = uses E e @ uses_of E ss"
| "uses_of E (Assert e # ss) = uses E e @ uses_of E ss"
| "uses_of E (Magic m # ss) = LineMagic m # uses_of E ss"
| "uses_of E (For x e body # ss) =
     uses E e @ uses_of (bind_name x (items_origin E e) E) body @
     uses_of (after E [For x e body]) ss"
| "uses_of E (IfElse c body orelse # ss) =
     uses E c @ uses_of E body @ uses_of E orelse @ uses_of (after E [IfElse c body orelse]) ss"
| "uses_of E (Try body hs # ss) =
     uses_of E body @ uses_of_handlers E hs @ uses_of (after E [Try body hs]) ss"
| "uses_of E (s # ss) = uses_of (after E [s]) ss"
| "uses_of_handlers E [] = []"
| "uses_of_handlers E (ExceptHandler None body # hs) =
     uses_of E body @ uses_of_handlers E hs"
| "uses_of_handlers E (ExceptHandler (Some t) body # hs) =
     uses E t @ uses_of E body @ uses_of_handlers E hs"

definition notebook_uses :: "(nat \<times> stmt list) list \<Rightarrow> use list" where
  "notebook_uses ps = first_seen (uses_of empty_namespace (program ps))"

text \<open>
  Whose code a use runs, and whether that is the code of a given package: \<^verbatim>\<open>qiskit\<close> for
  a value from \<^verbatim>\<open>qiskit.aqua.operators\<close>.
\<close>

fun performer :: "use \<Rightarrow> origin" where
  "performer (CallName f v) = v"
| "performer (CallMethod a v) = v"
| "performer (CallValue v) = v"
| "performer (GetAttr a v) = v"
| "performer (Operator op l r) = dispatch l r"
| "performer (Negate v) = v"
| "performer (LineMagic m) = IPython"

fun from_package :: "string \<Rightarrow> origin \<Rightarrow> bool" where
  "from_package p (From m) = (top_package m = p)"
| "from_package p _ = False"

definition performed_by :: "string \<Rightarrow> use list \<Rightarrow> use list" where
  "performed_by p us = filter (\<lambda>u. from_package p (performer u)) us"

definition performed_by_python :: "use list \<Rightarrow> use list" where
  "performed_by_python us = filter (\<lambda>u. performer u = Python) us"

definition performed_otherwise :: "use list \<Rightarrow> use list" where
  "performed_otherwise us =
     filter (\<lambda>u. \<not> from_package ''qiskit'' (performer u) \<and> \<not> from_package ''numpy'' (performer u) \<and>
                 performer u \<noteq> Python) us"

definition line_magics :: "stmt list \<Rightarrow> string list" where
  "line_magics ss = concat (map (\<lambda>s. case s of Magic m \<Rightarrow> [m] | _ \<Rightarrow> []) ss)"


section \<open>Running a cell\<close>

text \<open>
  What a simple statement does is decided outside the notebook: by the Python
  interpreter and by the library it calls into. The model takes that part as a
  parameter, the kernel, over any type of states \<^typ>\<open>'s\<close>, of exceptions \<^typ>\<open>'x\<close> and of
  values \<^typ>\<open>'v\<close>:
  \<^item> \<open>run_simple\<close> runs a simple statement in a state and gives the new state, with the
    exception if the statement raised one;
  \<^item> \<open>iter_items\<close> evaluates the iterable of a \<^verbatim>\<open>for\<close> loop to the items it yields, or
    raises;
  \<^item> \<open>bind_target\<close> binds the loop variable to an item;
  \<^item> \<open>truth\<close> evaluates the condition of a branch, or raises;
  \<^item> \<open>handler_matches\<close> says whether an \<^verbatim>\<open>except\<close> clause catches an exception.

  What the compound statements do is Python's own: statements run in order and the
  first exception ends the block; a \<^verbatim>\<open>for\<close> loop runs its body once per item; a \<^verbatim>\<open>try\<close>
  statement hands an exception of its body to the first handler that matches it, and
  the exception is then no longer pending. The definition of a function or a class
  binds a name and is run as a simple statement.

  Running gives a triple: the exceptions that were raised on the way, in order, the
  final state, and the exception that is pending at the end, if there is one. A cell
  run by the kernel fails with its pending exception.
\<close>

record ('s, 'x, 'v) kernel =
  run_simple :: "stmt \<Rightarrow> 's \<Rightarrow> 's \<times> 'x option"
  iter_items :: "expr \<Rightarrow> 's \<Rightarrow> 's \<times> ('x + 'v list)"
  bind_target :: "string \<Rightarrow> 'v \<Rightarrow> 's \<Rightarrow> 's"
  truth :: "expr \<Rightarrow> 's \<Rightarrow> 's \<times> ('x + bool)"
  handler_matches :: "expr option \<Rightarrow> 'x \<Rightarrow> bool"

type_synonym ('s, 'x) outcome = "'x list \<times> 's \<times> 'x option"

fun exec :: "('s, 'x, 'v) kernel \<Rightarrow> stmt \<Rightarrow> 's \<Rightarrow> ('s, 'x) outcome"
  and exec_block :: "('s, 'x, 'v) kernel \<Rightarrow> stmt list \<Rightarrow> 's \<Rightarrow> ('s, 'x) outcome"
  and exec_for :: "('s, 'x, 'v) kernel \<Rightarrow> string \<Rightarrow> stmt list \<Rightarrow> 'v list \<Rightarrow> 's \<Rightarrow> ('s, 'x) outcome"
  and exec_handlers :: "('s, 'x, 'v) kernel \<Rightarrow> handler list \<Rightarrow> 'x \<Rightarrow> 's \<Rightarrow> ('s, 'x) outcome" where
  "exec K (For x e body) s =
     (case iter_items K e s of
        (s1, Inl err) \<Rightarrow> ([err], s1, Some err)
      | (s1, Inr vs) \<Rightarrow> exec_for K x body vs s1)"
| "exec K (IfElse c body orelse) s =
     (case truth K c s of
        (s1, Inl err) \<Rightarrow> ([err], s1, Some err)
      | (s1, Inr b) \<Rightarrow> if b then exec_block K body s1 else exec_block K orelse s1)"
| "exec K (Try body hs) s =
     (case exec_block K body s of
        (log, s1, None) \<Rightarrow> (log, s1, None)
      | (log, s1, Some err) \<Rightarrow>
          (case exec_handlers K hs err s1 of (log', s2, p) \<Rightarrow> (log @ log', s2, p)))"
| "exec K Blank s = ([], s, None)"
| "exec K (Comment c) s = ([], s, None)"
| "exec K st s =
     (case run_simple K st s of
        (s1, None) \<Rightarrow> ([], s1, None)
      | (s1, Some err) \<Rightarrow> ([err], s1, Some err))"
| "exec_block K [] s = ([], s, None)"
| "exec_block K (st # sts) s =
     (case exec K st s of
        (log, s1, None) \<Rightarrow> (case exec_block K sts s1 of (log', s2, p) \<Rightarrow> (log @ log', s2, p))
      | (log, s1, Some err) \<Rightarrow> (log, s1, Some err))"
| "exec_for K x body [] s = ([], s, None)"
| "exec_for K x body (v # vs) s =
     (case exec_block K body (bind_target K x v s) of
        (log, s1, None) \<Rightarrow> (case exec_for K x body vs s1 of (log', s2, p) \<Rightarrow> (log @ log', s2, p))
      | (log, s1, Some err) \<Rightarrow> (log, s1, Some err))"
| "exec_handlers K [] err s = ([], s, Some err)"
| "exec_handlers K (ExceptHandler t body # hs) err s =
     (if handler_matches K t err then exec_block K body s else exec_handlers K hs err s)"

text \<open>
  A kernel to run a cell on: the state counts the simple statements that have run, the
  iterable of a loop yields the four labels of two qubits, and the fifth simple
  statement raises.
\<close>

definition failing_kernel :: "(nat, string, string) kernel" where
  "failing_kernel =
     \<lparr>run_simple = (\<lambda>st n. if n = 4 then (n, Some ''QiskitError'') else (Suc n, None)),
      iter_items = (\<lambda>e n. (n, Inr [''00'', ''01'', ''10'', ''11''])),
      bind_target = (\<lambda>x v n. n),
      truth = (\<lambda>e n. (n, Inr True)),
      handler_matches = (\<lambda>t err. True)\<rparr>"

text \<open>
  An outcome in which nothing was caught: the exceptions raised on the way are none when
  the run ends normally, and the pending exception alone when it fails.
\<close>

definition uncaught :: "('s, 'x) outcome \<Rightarrow> bool" where
  "uncaught r = (fst r = (case snd (snd r) of None \<Rightarrow> [] | Some err \<Rightarrow> [err]))"



section \<open>The two files compared\<close>

lemma same_source:
  "tutorial_md_1 = part000_md_1"
  "tutorial_code_4 = part000_code_4"
  "tutorial_md_5 = part000_md_5"
  "tutorial_code_6 = part000_code_6"
  "tutorial_md_7 = part000_md_7"
  "tutorial_md_8 = part000_md_8"
  "tutorial_code_9 = part000_code_9"
  "tutorial_md_10 = part000_md_10"
  "tutorial_code_11 = part000_code_11"
  "tutorial_md_12 = part000_md_12"
  "tutorial_code_13 = part000_code_13"
  "tutorial_md_14 = part000_md_14"
  "tutorial_code_16 = part000_code_16"
  "tutorial_code_18 = part000_code_18"
  "tutorial_code_20 = part000_code_20"
  "tutorial_md_21 = part000_md_21"
  "tutorial_code_23 = part000_code_23"
  "tutorial_md_24 = part000_md_24"
  "tutorial_code_25 = part000_code_25"
  "tutorial_code_26 = part000_code_26"
  by (simp_all add: tutorial_md_1_def part000_md_1_def
    tutorial_code_4_def part000_code_4_def
    tutorial_md_5_def part000_md_5_def
    tutorial_code_6_def part000_code_6_def
    tutorial_md_7_def part000_md_7_def
    tutorial_md_8_def part000_md_8_def
    tutorial_code_9_def part000_code_9_def
    tutorial_md_10_def part000_md_10_def
    tutorial_code_11_def part000_code_11_def
    tutorial_md_12_def part000_md_12_def
    tutorial_code_13_def part000_code_13_def
    tutorial_md_14_def part000_md_14_def
    tutorial_code_16_def part000_code_16_def
    tutorial_code_18_def part000_code_18_def
    tutorial_code_20_def part000_code_20_def
    tutorial_md_21_def part000_md_21_def
    tutorial_code_23_def part000_code_23_def
    tutorial_md_24_def part000_md_24_def
    tutorial_code_25_def part000_code_25_def
    tutorial_code_26_def part000_code_26_def)

lemma other_source:
  "tutorial_md_0 \<noteq> part000_md_0"
  "tutorial_code_2 \<noteq> part000_code_2"
  "tutorial_md_3 \<noteq> part000_md_3"
  "tutorial_md_15 \<noteq> part000_md_15"
  "tutorial_md_17 \<noteq> part000_md_17"
  "tutorial_md_19 \<noteq> part000_md_19"
  "tutorial_md_22 \<noteq> part000_md_22"
  "tutorial_md_27 \<noteq> part000_md_27"
  "tutorial_md_28 \<noteq> part000_md_28"
  "tutorial_md_30 \<noteq> part000_md_30"
  by (simp_all add: tutorial_md_0_def part000_md_0_def
    tutorial_code_2_def part000_code_2_def
    tutorial_md_3_def part000_md_3_def
    tutorial_md_15_def part000_md_15_def
    tutorial_md_17_def part000_md_17_def
    tutorial_md_19_def part000_md_19_def
    tutorial_md_22_def part000_md_22_def
    tutorial_md_27_def part000_md_27_def
    tutorial_md_28_def part000_md_28_def
    tutorial_md_30_def part000_md_30_def)

text \<open>
  Claim C1 says that the two files hold one notebook: at every cell position the same
  cell. At position 2 they do not. Both files have a code cell there, the import cell,
  and the two import cells have different source text.
\<close>

theorem import_cells_differ:
  "2 < length tutorial_nb \<and> 2 < length part000_nb \<and> tutorial_nb ! 2 \<noteq> part000_nb ! 2"
  by (simp add: tutorial_nb_def part000_nb_def tutorial_code_2_def part000_code_2_def)

text \<open>
  Claim C1, amended. The two files are two revisions of the notebook. The tutorial file
  has 54 cells and \<^verbatim>\<open>part_000\<close> has 32. They hold the same cell at twenty positions:
  1, 4 to 14, 16, 18, 20, 21 and 23 to 26. These include every code cell of \<^verbatim>\<open>part_000\<close>
  but its import cell. At every other position below 32 the cells differ.
\<close>

theorem notebook_revisions:
  "length tutorial_nb = 54 \<and> length part000_nb = 32 \<and>
   agreeing_positions tutorial_nb part000_nb =
     [1, 4, 5, 6, 7, 8, 9, 10, 11, 12, 13, 14, 16, 18, 20, 21, 23, 24, 25, 26] \<and>
   map fst (code_cells part000_nb) = [2, 4, 6, 9, 11, 13, 16, 18, 20, 23, 25, 26]"
  by (simp add: tutorial_nb_def part000_nb_def agreeing_positions_def code_cells_def
      same_source other_source)

section \<open>The parsed cells are the code of the notebooks\<close>

text \<open>Each tree prints to the source text of its cell, character by character.\<close>

lemma unparse_tutorial_2: "unparse_cell tutorial_ast_2 = tutorial_code_2"
  by (simp add: unparse_cell_def tutorial_ast_2_def tutorial_code_2_def indent_def
      digit_char_def bs_def sq_def theta_def)

lemma unparse_tutorial_4: "unparse_cell tutorial_ast_4 = tutorial_code_4"
  by (simp add: unparse_cell_def tutorial_ast_4_def tutorial_code_4_def indent_def
      digit_char_def bs_def sq_def theta_def)

lemma unparse_tutorial_6: "unparse_cell tutorial_ast_6 = tutorial_code_6"
  by (simp add: unparse_cell_def tutorial_ast_6_def tutorial_code_6_def indent_def
      digit_char_def bs_def sq_def theta_def)

lemma unparse_tutorial_9: "unparse_cell tutorial_ast_9 = tutorial_code_9"
  by (simp add: unparse_cell_def tutorial_ast_9_def tutorial_code_9_def indent_def
      digit_char_def bs_def sq_def theta_def)

lemma unparse_tutorial_11: "unparse_cell tutorial_ast_11 = tutorial_code_11"
  by (simp add: unparse_cell_def tutorial_ast_11_def tutorial_code_11_def indent_def
      digit_char_def bs_def sq_def theta_def)

lemma unparse_tutorial_13: "unparse_cell tutorial_ast_13 = tutorial_code_13"
  by (simp add: unparse_cell_def tutorial_ast_13_def tutorial_code_13_def indent_def
      digit_char_def bs_def sq_def theta_def)

lemma unparse_tutorial_16: "unparse_cell tutorial_ast_16 = tutorial_code_16"
  by (simp add: unparse_cell_def tutorial_ast_16_def tutorial_code_16_def indent_def
      digit_char_def bs_def sq_def theta_def)

lemma unparse_tutorial_18: "unparse_cell tutorial_ast_18 = tutorial_code_18"
  by (simp add: unparse_cell_def tutorial_ast_18_def tutorial_code_18_def indent_def
      digit_char_def bs_def sq_def theta_def)

lemma unparse_tutorial_20: "unparse_cell tutorial_ast_20 = tutorial_code_20"
  by (simp add: unparse_cell_def tutorial_ast_20_def tutorial_code_20_def indent_def
      digit_char_def bs_def sq_def theta_def)

lemma unparse_tutorial_23: "unparse_cell tutorial_ast_23 = tutorial_code_23"
  by (simp add: unparse_cell_def tutorial_ast_23_def tutorial_code_23_def indent_def
      digit_char_def bs_def sq_def theta_def)

lemma unparse_tutorial_25: "unparse_cell tutorial_ast_25 = tutorial_code_25"
  by (simp add: unparse_cell_def tutorial_ast_25_def tutorial_code_25_def indent_def
      digit_char_def bs_def sq_def theta_def)

lemma unparse_tutorial_26: "unparse_cell tutorial_ast_26 = tutorial_code_26"
  by (simp add: unparse_cell_def tutorial_ast_26_def tutorial_code_26_def indent_def
      digit_char_def bs_def sq_def theta_def)

lemma unparse_tutorial_29: "unparse_cell tutorial_ast_29 = tutorial_code_29"
  by (simp add: unparse_cell_def tutorial_ast_29_def tutorial_code_29_def indent_def
      digit_char_def bs_def sq_def theta_def)

lemma unparse_tutorial_31: "unparse_cell tutorial_ast_31 = tutorial_code_31"
  by (simp add: unparse_cell_def tutorial_ast_31_def tutorial_code_31_def indent_def
      digit_char_def bs_def sq_def theta_def)

lemma unparse_tutorial_32: "unparse_cell tutorial_ast_32 = tutorial_code_32"
  by (simp add: unparse_cell_def tutorial_ast_32_def tutorial_code_32_def indent_def
      digit_char_def bs_def sq_def theta_def)

lemma unparse_tutorial_34: "unparse_cell tutorial_ast_34 = tutorial_code_34"
  by (simp add: unparse_cell_def tutorial_ast_34_def tutorial_code_34_def indent_def
      digit_char_def bs_def sq_def theta_def)

lemma unparse_tutorial_37: "unparse_cell tutorial_ast_37 = tutorial_code_37"
  by (simp add: unparse_cell_def tutorial_ast_37_def tutorial_code_37_def indent_def
      digit_char_def bs_def sq_def theta_def)

lemma unparse_tutorial_39: "unparse_cell tutorial_ast_39 = tutorial_code_39"
  by (simp add: unparse_cell_def tutorial_ast_39_def tutorial_code_39_def indent_def
      digit_char_def bs_def sq_def theta_def)

lemma unparse_tutorial_41: "unparse_cell tutorial_ast_41 = tutorial_code_41"
  by (simp add: unparse_cell_def tutorial_ast_41_def tutorial_code_41_def indent_def
      digit_char_def bs_def sq_def theta_def)

lemma unparse_tutorial_44: "unparse_cell tutorial_ast_44 = tutorial_code_44"
  by (simp add: unparse_cell_def tutorial_ast_44_def tutorial_code_44_def indent_def
      digit_char_def bs_def sq_def theta_def)

lemma unparse_tutorial_47: "unparse_cell tutorial_ast_47 = tutorial_code_47"
  by (simp add: unparse_cell_def tutorial_ast_47_def tutorial_code_47_def indent_def
      digit_char_def bs_def sq_def theta_def)

lemma unparse_tutorial_49: "unparse_cell tutorial_ast_49 = tutorial_code_49"
  by (simp add: unparse_cell_def tutorial_ast_49_def tutorial_code_49_def indent_def
      digit_char_def bs_def sq_def theta_def)

lemma unparse_tutorial_52: "unparse_cell tutorial_ast_52 = tutorial_code_52"
  by (simp add: unparse_cell_def tutorial_ast_52_def tutorial_code_52_def indent_def
      digit_char_def bs_def sq_def theta_def)

lemma unparse_tutorial_53: "unparse_cell tutorial_ast_53 = tutorial_code_53"
  by (simp add: unparse_cell_def tutorial_ast_53_def tutorial_code_53_def indent_def
      digit_char_def bs_def sq_def theta_def)

lemma unparse_part000_2: "unparse_cell part000_ast_2 = part000_code_2"
  by (simp add: unparse_cell_def part000_ast_2_def part000_code_2_def)

lemmas unparse_cells =
  unparse_tutorial_2 unparse_tutorial_4 unparse_tutorial_6 unparse_tutorial_9
  unparse_tutorial_11 unparse_tutorial_13 unparse_tutorial_16 unparse_tutorial_18
  unparse_tutorial_20 unparse_tutorial_23 unparse_tutorial_25 unparse_tutorial_26
  unparse_tutorial_29 unparse_tutorial_31 unparse_tutorial_32 unparse_tutorial_34
  unparse_tutorial_37 unparse_tutorial_39 unparse_tutorial_41 unparse_tutorial_44
  unparse_tutorial_47 unparse_tutorial_49 unparse_tutorial_52 unparse_tutorial_53
  unparse_part000_2

lemma tutorial_well_formed: "list_all (\<lambda>(i, p). list_all well_formed p) tutorial_parsed"
  by code_simp

lemma part000_well_formed: "list_all (\<lambda>(i, p). list_all well_formed p) part000_parsed"
  by code_simp

lemma tutorial_parsed_from: "parsed_from tutorial_parsed tutorial_nb"
  unfolding parsed_from_def
proof
  show "unparse_all tutorial_parsed = code_cells tutorial_nb"
    by (simp add: unparse_all_def code_cells_def tutorial_parsed_def tutorial_nb_def
        unparse_cells)
  show "list_all (\<lambda>(i, p). list_all well_formed p) tutorial_parsed"
    by (rule tutorial_well_formed)
qed

lemma part000_parsed_from: "parsed_from part000_parsed part000_nb"
  unfolding parsed_from_def
proof
  show "unparse_all part000_parsed = code_cells part000_nb"
    by (simp add: unparse_all_def code_cells_def part000_parsed_def part000_nb_def
        unparse_cells same_source [symmetric])
  show "list_all (\<lambda>(i, p). list_all well_formed p) part000_parsed"
    by (rule part000_well_formed)
qed

section \<open>Control flow\<close>

text \<open>
  Claim C2 says that every code cell, in both files, is straight-line code. The code
  cell at position 18 is not: in both files its text is the printed form of a tree that
  ends in a \<^verbatim>\<open>for\<close> loop.
\<close>

theorem bell_cell_has_loop:
  "source (tutorial_nb ! 18) = unparse_cell tutorial_ast_18 \<and>
   source (part000_nb ! 18) = unparse_cell tutorial_ast_18 \<and>
   list_all well_formed tutorial_ast_18 \<and>
   \<not> straight_line tutorial_ast_18"
proof -
  have "source (tutorial_nb ! 18) = tutorial_code_18"
    by (simp add: tutorial_nb_def)
  moreover have "source (part000_nb ! 18) = tutorial_code_18"
    by (simp add: part000_nb_def same_source)
  moreover have "list_all well_formed tutorial_ast_18"
    by code_simp
  moreover have "\<not> straight_line tutorial_ast_18"
    by code_simp
  ultimately show ?thesis
    by (simp add: unparse_tutorial_18)
qed

text \<open>
  Claim C2, amended. In both files every code cell but the one at position 18 is a
  sequence of simple statements: imports, assignments, expression statements and IPython
  magics, with no branch, no \<^verbatim>\<open>try\<close> statement and no definition of a function or a
  class. The cell at position 18 holds the one compound statement of the notebook: a
  \<^verbatim>\<open>for\<close> loop over the literal list of the four labels \<^verbatim>\<open>'00'\<close>, \<^verbatim>\<open>'01'\<close>, \<^verbatim>\<open>'10'\<close>, \<^verbatim>\<open>'11'\<close>,
  whose body is a single call of \<^verbatim>\<open>print\<close>.
\<close>

theorem single_for_loop:
  \<open>parsed_from tutorial_parsed tutorial_nb \<and> parsed_from part000_parsed part000_nb \<and>
   not_straight_line tutorial_parsed = [18] \<and> not_straight_line part000_parsed = [18] \<and>
   filter compound (program tutorial_parsed) = filter compound (program part000_parsed) \<and>
   filter compound (program tutorial_parsed) =
     [For ''basis''
        (ListLit [StrLit Single ''00'', StrLit Single ''01'', StrLit Single ''10'',
                  StrLit Single ''11''])
        [Expr (Call (Name ''print'')
           [JoinedStr [Literal ''\'bell\' maps |'', FormattedValue (Name ''basis''),
              Literal ''> to '',
              FormattedValue (Call (Attribute (Name ''bell'') ''eval'') [Name ''basis''] [])]]
           [])]]\<close>
proof -
  have "not_straight_line tutorial_parsed = [18]"
    by code_simp
  moreover have "not_straight_line part000_parsed = [18]"
    by code_simp
  moreover have "filter compound (program tutorial_parsed) =
     [For ''basis''
        (ListLit [StrLit Single ''00'', StrLit Single ''01'', StrLit Single ''10'',
                  StrLit Single ''11''])
        [Expr (Call (Name ''print'')
           [JoinedStr [Literal (sq @ ''bell'' @ sq @ '' maps |''), FormattedValue (Name ''basis''),
              Literal ''> to '',
              FormattedValue (Call (Attribute (Name ''bell'') ''eval'') [Name ''basis''] [])]]
           [])]]"
    by code_simp
  moreover have "filter compound (program part000_parsed) = filter compound (program tutorial_parsed)"
    by code_simp
  ultimately show ?thesis
    using tutorial_parsed_from part000_parsed_from by (simp add: sq_def)
qed

section \<open>Exceptions\<close>

text \<open>
  Code without error handling catches nothing: whatever exception is raised while it
  runs is the one exception raised, and it is pending when the run ends. The proof
  follows the four functions of the run; of the handlers there is nothing to say, since
  such code has none.
\<close>

lemma exec_uncaught:
  "error_handling st = [] \<Longrightarrow> uncaught (exec K st s)"
  "concat (map error_handling sts) = [] \<Longrightarrow> uncaught (exec_block K sts s)"
  "concat (map error_handling body) = [] \<Longrightarrow> uncaught (exec_for K x body vs s)"
  "exec_handlers K hs err s = exec_handlers K hs err s"
proof (induction K st s and K sts s and K x body vs s and K hs err s
    rule: exec_exec_block_exec_for_exec_handlers.induct)
qed (auto simp: uncaught_def split: prod.splits sum.splits option.splits)

lemma no_error_handling:
  "list_all (\<lambda>(i, c). concat (map error_handling c) = []) (tutorial_parsed @ part000_parsed)"
  by code_simp

text \<open>
  Claim C4. No code cell of either file holds error handling: no \<^verbatim>\<open>try\<close> statement, no
  branch, no \<^verbatim>\<open>raise\<close> or \<^verbatim>\<open>assert\<close>. And however the interpreter and the library behave,
  an exception raised while a cell runs is pending when the cell ends: it leaves the
  cell uncaught.
\<close>

theorem exceptions_propagate:
  assumes "(i, c) \<in> set (tutorial_parsed @ part000_parsed)"
  shows "parsed_from tutorial_parsed tutorial_nb \<and> parsed_from part000_parsed part000_nb \<and>
    concat (map error_handling c) = [] \<and>
    (\<forall>(K :: ('s, 'x, 'v) kernel) s err.
       err \<in> set (fst (exec_block K c s)) \<longrightarrow> snd (snd (exec_block K c s)) = Some err)"
proof -
  from assms no_error_handling have eh: "concat (map error_handling c) = []"
    by (auto simp: list_all_iff)
  have "snd (snd (exec_block K c s)) = Some err"
    if "err \<in> set (fst (exec_block K c s))" for K :: "('s, 'x, 'v) kernel" and s err
    using exec_uncaught(2) [OF eh, of K s] that
    by (auto simp: uncaught_def split: option.splits)
  with eh tutorial_parsed_from part000_parsed_from show ?thesis
    by blast
qed

text \<open>
  The claim at work: the cell at position 18 run on a kernel whose fifth simple statement
  raises. The three assignments and the first call of \<^verbatim>\<open>print\<close> in the loop run; the second
  call raises, the loop and the cell end, and the exception is pending.
\<close>

theorem exceptions_propagate_witness:
  "(18, tutorial_ast_18) \<in> set (tutorial_parsed @ part000_parsed) \<and>
   exec_block failing_kernel tutorial_ast_18 0 = ([''QiskitError''], 4, Some ''QiskitError'') \<and>
   ''QiskitError'' \<in> set (fst (exec_block failing_kernel tutorial_ast_18 0)) \<and>
   snd (snd (exec_block failing_kernel tutorial_ast_18 0)) = Some ''QiskitError''"
proof -
  have m: "(18, tutorial_ast_18) \<in> set (tutorial_parsed @ part000_parsed)"
    by (simp add: tutorial_parsed_def)
  have r: "exec_block failing_kernel tutorial_ast_18 0 =
      ([''QiskitError''], 4, Some ''QiskitError'')"
    by (simp add: tutorial_ast_18_def failing_kernel_def)
  from exceptions_propagate [where 's = nat and 'x = string and 'v = string, OF m]
  have "''QiskitError'' \<in> set (fst (exec_block failing_kernel tutorial_ast_18 0)) \<longrightarrow>
      snd (snd (exec_block failing_kernel tutorial_ast_18 0)) = Some ''QiskitError''"
    by blast
  with m r show ?thesis
    by simp
qed

text \<open>
  The same run inside a \<^verbatim>\<open>try\<close> statement with a bare \<^verbatim>\<open>except\<close> clause: the exception is
  raised and caught, and nothing is pending at the end. This is the error handling that
  no cell has.
\<close>

lemma try_catches:
  "exec_block failing_kernel [Try tutorial_ast_18 [ExceptHandler None [Blank]]] 0 =
     ([''QiskitError''], 4, None)"
  by (simp add: tutorial_ast_18_def failing_kernel_def)

section \<open>What the cells import and use\<close>

text \<open>
  The modules that the two notebooks import, and the uses that are not performed by a
  value from \<^verbatim>\<open>qiskit\<close>: those of \<^verbatim>\<open>numpy\<close>, those of Python itself, and the rest.
\<close>

lemma tutorial_imports:
  "concat (map imported_modules (program tutorial_parsed)) =
     [''qiskit'', ''qiskit.aqua.operators'', ''qiskit.circuit'', ''qiskit.quantum_info'',
      ''numpy'', ''qiskit.tools.jupyter'']"
  by code_simp

lemma part000_imports:
  "concat (map imported_modules (program part000_parsed)) =
     [''qiskit.aqua.operators'', ''qiskit'', ''qiskit.circuit'', ''numpy'']"
  by code_simp

text \<open>
  The uses of each notebook, each where it first occurs, in the order in which the
  kernel meets them.
\<close>

lemma tutorial_uses:
  "notebook_uses tutorial_parsed =
     [Negate Python, CallMethod ''sqrt'' (From ''numpy''),
      Operator Div Python (From ''numpy''),
      CallName ''StateFn'' (From ''qiskit.aqua.operators''),
      CallMethod ''eval'' (From ''qiskit.aqua.operators''),
      CallName ''print'' Python, CallName ''type'' Python,
      CallName ''QuantumCircuit'' (From ''qiskit''),
      CallMethod ''h'' (From ''qiskit''),
      CallMethod ''z'' (From ''qiskit''),
      Operator BitXor (From ''qiskit.aqua.operators'') Python,
      GetAttr ''primitive'' (From ''qiskit.aqua.operators''),
      CallMethod ''draw'' (From ''qiskit.aqua.operators''),
      CallName ''CircuitOp'' (From ''qiskit.aqua.operators''),
      Operator MatMult (From ''qiskit.aqua.operators'') (From ''qiskit.aqua.operators''),
      CallMethod ''sample'' (From ''qiskit.aqua.operators''),
      CallMethod ''compose'' (From ''qiskit.aqua.operators''),
      CallMethod ''array'' (From ''numpy''),
      CallName ''MatrixOp'' (From ''qiskit.aqua.operators''),
      CallName ''Pauli'' (From ''qiskit.quantum_info''),
      CallName ''PauliOp'' (From ''qiskit.aqua.operators''),
      CallName ''repr'' Python,
      Operator BitXor (From ''qiskit.aqua.operators'') (From ''qiskit.aqua.operators''),
      Operator Add (From ''qiskit.aqua.operators'') (From ''qiskit.aqua.operators''),
      CallName ''Parameter'' (From ''qiskit.circuit''),
      Operator Mult (From ''qiskit.circuit'') (From ''qiskit.aqua.operators''),
      CallMethod ''exp_i'' (From ''qiskit.circuit''),
      CallMethod ''adjoint'' (From ''qiskit.aqua.operators''),
      CallName ''PauliExpectation'' (From ''qiskit.aqua.operators''),
      CallMethod ''convert'' (From ''qiskit.aqua.operators''),
      Operator MatMult (From ''qiskit.aqua.operators'') (From ''qiskit.circuit''),
      CallName ''Suzuki'' (From ''qiskit.aqua.operators''),
      CallName ''PauliTrotterEvolution'' (From ''qiskit.aqua.operators''),
      CallName ''range'' Python, CallName ''list'' Python,
      CallMethod ''bind_parameters'' (From ''qiskit.aqua.operators''),
      CallMethod ''get_backend'' (From ''qiskit''),
      CallName ''CircuitSampler'' (From ''qiskit.aqua.operators''),
      CallMethod ''real'' (From ''numpy''),
      LineMagic ''qiskit_version_table'', LineMagic ''qiskit_copyright'']"
  by code_simp

lemma part000_uses:
  "notebook_uses part000_parsed =
     [Negate Python, CallMethod ''sqrt'' (From ''numpy''),
      Operator Div Python (From ''numpy''),
      CallName ''StateFn'' (From ''qiskit.aqua.operators''),
      CallMethod ''eval'' (From ''qiskit.aqua.operators''),
      CallName ''print'' Python, CallName ''type'' Python,
      CallName ''QuantumCircuit'' (From ''qiskit''),
      CallMethod ''h'' (From ''qiskit''),
      CallMethod ''z'' (From ''qiskit''),
      Operator BitXor (From ''qiskit.aqua.operators'') Python,
      GetAttr ''primitive'' (From ''qiskit.aqua.operators''),
      CallMethod ''draw'' (From ''qiskit.aqua.operators''),
      CallName ''CircuitOp'' (From ''qiskit.aqua.operators''),
      Operator MatMult (From ''qiskit.aqua.operators'') (From ''qiskit.aqua.operators''),
      CallMethod ''sample'' (From ''qiskit.aqua.operators''),
      CallMethod ''compose'' (From ''qiskit.aqua.operators'')]"
  by code_simp

lemma tutorial_by_qiskit:
  "performed_by ''qiskit'' (notebook_uses tutorial_parsed) =
     [CallName ''StateFn'' (From ''qiskit.aqua.operators''),
      CallMethod ''eval'' (From ''qiskit.aqua.operators''),
      CallName ''QuantumCircuit'' (From ''qiskit''),
      CallMethod ''h'' (From ''qiskit''),
      CallMethod ''z'' (From ''qiskit''),
      Operator BitXor (From ''qiskit.aqua.operators'') Python,
      GetAttr ''primitive'' (From ''qiskit.aqua.operators''),
      CallMethod ''draw'' (From ''qiskit.aqua.operators''),
      CallName ''CircuitOp'' (From ''qiskit.aqua.operators''),
      Operator MatMult (From ''qiskit.aqua.operators'') (From ''qiskit.aqua.operators''),
      CallMethod ''sample'' (From ''qiskit.aqua.operators''),
      CallMethod ''compose'' (From ''qiskit.aqua.operators''),
      CallName ''MatrixOp'' (From ''qiskit.aqua.operators''),
      CallName ''Pauli'' (From ''qiskit.quantum_info''),
      CallName ''PauliOp'' (From ''qiskit.aqua.operators''),
      Operator BitXor (From ''qiskit.aqua.operators'') (From ''qiskit.aqua.operators''),
      Operator Add (From ''qiskit.aqua.operators'') (From ''qiskit.aqua.operators''),
      CallName ''Parameter'' (From ''qiskit.circuit''),
      Operator Mult (From ''qiskit.circuit'') (From ''qiskit.aqua.operators''),
      CallMethod ''exp_i'' (From ''qiskit.circuit''),
      CallMethod ''adjoint'' (From ''qiskit.aqua.operators''),
      CallName ''PauliExpectation'' (From ''qiskit.aqua.operators''),
      CallMethod ''convert'' (From ''qiskit.aqua.operators''),
      Operator MatMult (From ''qiskit.aqua.operators'') (From ''qiskit.circuit''),
      CallName ''Suzuki'' (From ''qiskit.aqua.operators''),
      CallName ''PauliTrotterEvolution'' (From ''qiskit.aqua.operators''),
      CallMethod ''bind_parameters'' (From ''qiskit.aqua.operators''),
      CallMethod ''get_backend'' (From ''qiskit''),
      CallName ''CircuitSampler'' (From ''qiskit.aqua.operators'')]"
  unfolding tutorial_uses by code_simp

lemma part000_by_qiskit:
  "performed_by ''qiskit'' (notebook_uses part000_parsed) =
     [CallName ''StateFn'' (From ''qiskit.aqua.operators''),
      CallMethod ''eval'' (From ''qiskit.aqua.operators''),
      CallName ''QuantumCircuit'' (From ''qiskit''),
      CallMethod ''h'' (From ''qiskit''),
      CallMethod ''z'' (From ''qiskit''),
      Operator BitXor (From ''qiskit.aqua.operators'') Python,
      GetAttr ''primitive'' (From ''qiskit.aqua.operators''),
      CallMethod ''draw'' (From ''qiskit.aqua.operators''),
      CallName ''CircuitOp'' (From ''qiskit.aqua.operators''),
      Operator MatMult (From ''qiskit.aqua.operators'') (From ''qiskit.aqua.operators''),
      CallMethod ''sample'' (From ''qiskit.aqua.operators''),
      CallMethod ''compose'' (From ''qiskit.aqua.operators'')]"
  unfolding part000_uses by code_simp

lemma tutorial_outside_qiskit:
  "performed_by ''numpy'' (notebook_uses tutorial_parsed) =
     [CallMethod ''sqrt'' (From ''numpy''), Operator Div Python (From ''numpy''),
      CallMethod ''array'' (From ''numpy''), CallMethod ''real'' (From ''numpy'')]"
  "performed_by_python (notebook_uses tutorial_parsed) =
     [Negate Python, CallName ''print'' Python, CallName ''type'' Python,
      CallName ''repr'' Python, CallName ''range'' Python, CallName ''list'' Python]"
  "performed_otherwise (notebook_uses tutorial_parsed) =
     [LineMagic ''qiskit_version_table'', LineMagic ''qiskit_copyright'']"
  unfolding tutorial_uses by code_simp+

lemma part000_outside_qiskit:
  "performed_by ''numpy'' (notebook_uses part000_parsed) =
     [CallMethod ''sqrt'' (From ''numpy''), Operator Div Python (From ''numpy'')]"
  "performed_by_python (notebook_uses part000_parsed) =
     [Negate Python, CallName ''print'' Python, CallName ''type'' Python]"
  "performed_otherwise (notebook_uses part000_parsed) = []"
  unfolding part000_uses by code_simp+



section \<open>Where the operations come from\<close>

text \<open>
  Claim C3. Neither file defines a function or a class, and every module imported is
  \<^verbatim>\<open>qiskit\<close>, one of its subpackages, or \<^verbatim>\<open>numpy\<close>. Every call, method call, attribute and
  operator of the tutorial notebook is listed here with the origin of the value it is
  applied to. What the notebook demonstrates is performed by values from \<^verbatim>\<open>qiskit\<close>:
  state functions are built by \<^verbatim>\<open>StateFn\<close>; the tensor \<^verbatim>\<open>^\<close>, the composition \<^verbatim>\<open>@\<close> and
  \<^verbatim>\<open>compose\<close>, the sum \<^verbatim>\<open>+\<close> and the product \<^verbatim>\<open>*\<close> have operands from \<^verbatim>\<open>qiskit\<close> (the tensor
  power has the integer 5 on its right); \<^verbatim>\<open>adjoint\<close>, \<^verbatim>\<open>eval\<close>, \<^verbatim>\<open>sample\<close>, \<^verbatim>\<open>exp_i\<close>,
  \<^verbatim>\<open>convert\<close> and \<^verbatim>\<open>bind_parameters\<close> are methods of values from \<^verbatim>\<open>qiskit\<close>; the converters
  \<^verbatim>\<open>PauliExpectation\<close>, \<^verbatim>\<open>PauliTrotterEvolution\<close> with \<^verbatim>\<open>Suzuki\<close>, and \<^verbatim>\<open>CircuitSampler\<close> are
  names of \<^verbatim>\<open>qiskit.aqua.operators\<close>. Outside \<^verbatim>\<open>qiskit\<close> the notebook uses only \<^verbatim>\<open>numpy\<close> for
  numbers (\<^verbatim>\<open>sqrt\<close>, a division by its result, \<^verbatim>\<open>array\<close>, \<^verbatim>\<open>real\<close>), a unary minus on a
  literal, the builtins \<^verbatim>\<open>print\<close>, \<^verbatim>\<open>type\<close>, \<^verbatim>\<open>repr\<close>, \<^verbatim>\<open>range\<close> and \<^verbatim>\<open>list\<close>, and two line
  magics, which stand in one cell right after the import of \<^verbatim>\<open>qiskit.tools.jupyter\<close>.
  The same holds of \<^verbatim>\<open>part_000\<close>, which has fewer uses and no magic. No name or attribute
  that the cells read is private.
\<close>

theorem operations_come_from_library:
  "parsed_from tutorial_parsed tutorial_nb \<and> parsed_from part000_parsed part000_nb \<and>
   concat (map definitions (program tutorial_parsed)) = [] \<and>
   concat (map definitions (program part000_parsed)) = [] \<and>
   concat (map imported_modules (program tutorial_parsed)) =
     [''qiskit'', ''qiskit.aqua.operators'', ''qiskit.circuit'', ''qiskit.quantum_info'',
      ''numpy'', ''qiskit.tools.jupyter''] \<and>
   concat (map imported_modules (program part000_parsed)) =
     [''qiskit.aqua.operators'', ''qiskit'', ''qiskit.circuit'', ''numpy''] \<and>
   performed_by ''qiskit'' (notebook_uses tutorial_parsed) =
     [CallName ''StateFn'' (From ''qiskit.aqua.operators''),
      CallMethod ''eval'' (From ''qiskit.aqua.operators''),
      CallName ''QuantumCircuit'' (From ''qiskit''),
      CallMethod ''h'' (From ''qiskit''),
      CallMethod ''z'' (From ''qiskit''),
      Operator BitXor (From ''qiskit.aqua.operators'') Python,
      GetAttr ''primitive'' (From ''qiskit.aqua.operators''),
      CallMethod ''draw'' (From ''qiskit.aqua.operators''),
      CallName ''CircuitOp'' (From ''qiskit.aqua.operators''),
      Operator MatMult (From ''qiskit.aqua.operators'') (From ''qiskit.aqua.operators''),
      CallMethod ''sample'' (From ''qiskit.aqua.operators''),
      CallMethod ''compose'' (From ''qiskit.aqua.operators''),
      CallName ''MatrixOp'' (From ''qiskit.aqua.operators''),
      CallName ''Pauli'' (From ''qiskit.quantum_info''),
      CallName ''PauliOp'' (From ''qiskit.aqua.operators''),
      Operator BitXor (From ''qiskit.aqua.operators'') (From ''qiskit.aqua.operators''),
      Operator Add (From ''qiskit.aqua.operators'') (From ''qiskit.aqua.operators''),
      CallName ''Parameter'' (From ''qiskit.circuit''),
      Operator Mult (From ''qiskit.circuit'') (From ''qiskit.aqua.operators''),
      CallMethod ''exp_i'' (From ''qiskit.circuit''),
      CallMethod ''adjoint'' (From ''qiskit.aqua.operators''),
      CallName ''PauliExpectation'' (From ''qiskit.aqua.operators''),
      CallMethod ''convert'' (From ''qiskit.aqua.operators''),
      Operator MatMult (From ''qiskit.aqua.operators'') (From ''qiskit.circuit''),
      CallName ''Suzuki'' (From ''qiskit.aqua.operators''),
      CallName ''PauliTrotterEvolution'' (From ''qiskit.aqua.operators''),
      CallMethod ''bind_parameters'' (From ''qiskit.aqua.operators''),
      CallMethod ''get_backend'' (From ''qiskit''),
      CallName ''CircuitSampler'' (From ''qiskit.aqua.operators'')] \<and>
   performed_by ''numpy'' (notebook_uses tutorial_parsed) =
     [CallMethod ''sqrt'' (From ''numpy''), Operator Div Python (From ''numpy''),
      CallMethod ''array'' (From ''numpy''), CallMethod ''real'' (From ''numpy'')] \<and>
   performed_by_python (notebook_uses tutorial_parsed) =
     [Negate Python, CallName ''print'' Python, CallName ''type'' Python,
      CallName ''repr'' Python, CallName ''range'' Python, CallName ''list'' Python] \<and>
   performed_otherwise (notebook_uses tutorial_parsed) =
     [LineMagic ''qiskit_version_table'', LineMagic ''qiskit_copyright''] \<and>
   map snd (filter (\<lambda>(i, p). line_magics p \<noteq> []) tutorial_parsed) =
     [[Import ''qiskit.tools.jupyter'' None, Magic ''qiskit_version_table'',
       Magic ''qiskit_copyright'']] \<and>
   performed_by ''qiskit'' (notebook_uses part000_parsed) =
     [CallName ''StateFn'' (From ''qiskit.aqua.operators''),
      CallMethod ''eval'' (From ''qiskit.aqua.operators''),
      CallName ''QuantumCircuit'' (From ''qiskit''),
      CallMethod ''h'' (From ''qiskit''),
      CallMethod ''z'' (From ''qiskit''),
      Operator BitXor (From ''qiskit.aqua.operators'') Python,
      GetAttr ''primitive'' (From ''qiskit.aqua.operators''),
      CallMethod ''draw'' (From ''qiskit.aqua.operators''),
      CallName ''CircuitOp'' (From ''qiskit.aqua.operators''),
      Operator MatMult (From ''qiskit.aqua.operators'') (From ''qiskit.aqua.operators''),
      CallMethod ''sample'' (From ''qiskit.aqua.operators''),
      CallMethod ''compose'' (From ''qiskit.aqua.operators'')] \<and>
   performed_by ''numpy'' (notebook_uses part000_parsed) =
     [CallMethod ''sqrt'' (From ''numpy''), Operator Div Python (From ''numpy'')] \<and>
   performed_by_python (notebook_uses part000_parsed) =
     [Negate Python, CallName ''print'' Python, CallName ''type'' Python] \<and>
   performed_otherwise (notebook_uses part000_parsed) = [] \<and>
   filter is_private
     (names_read (program tutorial_parsed) @ attributes_read (program tutorial_parsed) @
      names_read (program part000_parsed) @ attributes_read (program part000_parsed)) = []"
proof -
  have "concat (map definitions (program tutorial_parsed)) = []"
    by code_simp
  moreover have "concat (map definitions (program part000_parsed)) = []"
    by code_simp
  moreover note tutorial_imports part000_imports
  moreover note tutorial_by_qiskit
  moreover note tutorial_outside_qiskit
  moreover have "map snd (filter (\<lambda>(i, p). line_magics p \<noteq> []) tutorial_parsed) =
     [[Import ''qiskit.tools.jupyter'' None, Magic ''qiskit_version_table'',
       Magic ''qiskit_copyright'']]"
    by code_simp
  moreover note part000_by_qiskit
  moreover note part000_outside_qiskit
  moreover have "filter is_private
     (names_read (program tutorial_parsed) @ attributes_read (program tutorial_parsed) @
      names_read (program part000_parsed) @ attributes_read (program part000_parsed)) = []"
    by code_simp
  ultimately show ?thesis
    using tutorial_parsed_from part000_parsed_from by blast
qed

end
